theory Spec2Isabelle
  imports Main "HOL-Library.Sublist"
begin

section \<open>JavaScript values\<close>

text \<open>
  The server (\<^verbatim>\<open>server.js\<close>) receives a JSON request body, reads four fields of it,
  builds a system prompt, calls one of three vendors and relays the answer. The fields of
  the body are whatever the client sent, so the model works on JavaScript values as
  \<^verbatim>\<open>JSON.parse\<close> produces them, with \<^verbatim>\<open>undefined\<close> added for an absent property.

  Strings are lists of bytes: the UTF-8 encoding of the JavaScript string, which is how the
  source file stores its literals. A number is represented by the two observations this
  program makes of one: \<open>JNum nz s\<close> is a number that is truthy iff \<open>nz\<close> (it is neither
  \<^verbatim>\<open>0\<close> nor \<^verbatim>\<open>NaN\<close>) and whose rendering \<^verbatim>\<open>String(n)\<close> is \<open>s\<close>. An object is the list of
  its own properties, looked up with \<open>map_of\<close>.

  The model covers \<^verbatim>\<open>systemFor\<close> and the route \<^verbatim>\<open>/api/generate\<close>. The login route, the static
  files and the start of the server are outside it.
\<close>

datatype json =
    JUndefined
  | JNull
  | JBool bool
  | JNum bool string
  | JStr string
  | JArr "json list"
  | JObj "(string \<times> json) list"

section \<open>The prompt builder\<close>

text \<open>The characters of the prompt texts outside ASCII, as UTF-8 bytes.\<close>

abbreviation em_dash :: string where
  "em_dash \<equiv> [CHR 0xE2, CHR 0x80, CHR 0x94]"

abbreviation en_dash :: string where
  "en_dash \<equiv> [CHR 0xE2, CHR 0x80, CHR 0x93]"

abbreviation nb_hyphen :: string where
  "nb_hyphen \<equiv> [CHR 0xE2, CHR 0x80, CHR 0x91]"

abbreviation r_quote :: string where
  "r_quote \<equiv> [CHR 0xE2, CHR 0x80, CHR 0x99]"

abbreviation bullet :: string where
  "bullet \<equiv> [CHR 0xE2, CHR 0x80, CHR 0xA2]"

text \<open>An ASCII apostrophe that ends a literal is written apart from it.\<close>

abbreviation apostrophe :: string where
  "apostrophe \<equiv> [CHR 0x27]"

text \<open>The line feed of the template literals (\<^verbatim>\<open>\n\<close>).\<close>

abbreviation nl :: string where
  "nl \<equiv> [CHR 0x0A]"

text \<open>\<^verbatim>\<open>[s1, ..., sn].join(sep)\<close> on an array of strings.\<close>

fun join :: "string \<Rightarrow> string list \<Rightarrow> string" where
  "join sep [] = []"
| "join sep [x] = x"
| "join sep (x # y # ys) = x @ sep @ join sep (y # ys)"

text \<open>
  The constants of \<^verbatim>\<open>systemFor\<close>. The source declares \<^verbatim>\<open>ROLE\<close> and \<^verbatim>\<open>ASSIGNMENT\<close> anew in
  each branch; here each carries the name of its branch.
\<close>

definition GENERAL_GUIDELINES :: string where
  "GENERAL_GUIDELINES = join '' ''
    [''Default Scripture is NKJV '' @ em_dash @ '' quote verbatim or reference.'',
     ''All content should be biblically accurate and align with sound Evangelical Christian doctrine, with an emphasis on Pentecostal beliefs.'',
     ''Illustrations must be current and relevant to a modern audience.'',
     ''Tone: warm, authoritative, and compassionate; 'Human'' @ nb_hyphen @ ''First' '' @ em_dash @ '' avoid mechanical, robotic, or formulaic language.'',
     ''All content must be Christ'' @ nb_hyphen @ ''centered and bring glory to God.'']"

definition HUMAN_VOICE :: string where
  "HUMAN_VOICE = join '' ''
    [''Write with a natural, pastoral human voice.'',
     ''Vary sentence length: mix short, punchy lines with longer, more reflective sentences.'',
     ''Use contractions (you'' @ r_quote @ ''ll, we'' @ r_quote @ ''re, don'' @ r_quote @ ''t) and occasional rhetorical questions.'',
     ''Prefer paragraphs over bullet lists unless the structure explicitly requires lists.'',
     ''Avoid boilerplate phrases like 'in conclusion', 'in today'' @ r_quote @ ''s fast-paced world', or 'this article will'.'',
     ''Avoid meta-language (do not say 'as an AI', 'this essay will').'',
     ''Include concrete, real-life details (e.g., a Tuesday commute, a grocery line, a late-night hospital visit) when illustrating.'',
     ''Allow mild, tasteful disfluencies for cadence (e.g., a fragment for emphasis).'',
     ''Keep tone warm, authentic, unpretentious; prioritize clarity over flourish.'']"

definition ROLE_sermonCrafter :: string where
  "ROLE_sermonCrafter =
     ''You are Pentecostal and biblically sound; your communication style is 'Human'' @ nb_hyphen @ ''First'' @ apostrophe @ em_dash @ ''warm, intellectually stimulating, and deeply authentic.''"

definition ASSIGNMENT_outline :: string where
  "ASSIGNMENT_outline = join '' ''
    [''You follow a strict two'' @ nb_hyphen @ ''step workflow for sermon creation.'',
     ''Step 1 (current): Generate a structured sermon outline that includes:'',
     bullet @ '' A compelling, concise introduction summary.'',
     bullet @ '' 3'' @ en_dash @ ''5 distinct sermon points for the body; each point briefly states a biblical truth that will be explored.'',
     bullet @ '' A concise conclusion that reinforces the main message.'',
     ''Then STOP and wait for explicit user approval. Do NOT write the full sermon.'']"

definition ASSIGNMENT_FULL :: string where
  "ASSIGNMENT_FULL = join '' ''
    [''Step 2: The user has approved the outline.'',
     ''Generate a COMPLETE sermon that strictly follows the approved outline and this exact structure:'',
     bullet @ '' Introduction (~200 words): An engaging passage that introduces the topic and hooks the listener.'',
     bullet @ '' Body (~1700 words): For each of the 3'' @ en_dash @ ''5 sermon points, produce a complete teaching unit:'',
     ''  - A thorough explanation of the designated Scripture, including its original context.'',
     ''  - A clear breakdown of the theological principles (sound doctrine) found in the text.'',
     ''  - A modern, relatable story, analogy, or anecdote that makes the point tangible and memorable.'',
     ''  - Clear, actionable steps for listeners to apply the biblical truth to their daily lives.'',
     bullet @ '' Conclusion (~200 words): A strong wrap'' @ nb_hyphen @ ''up that reinforces the main message and encourages application.'']"

definition ROLE_sermonEnhancer :: string where
  "ROLE_sermonEnhancer =
     ''You are a seasoned Pastor, master of Homiletics, and expert Speechwriter, Pentecostal and biblically sound, with a 'Human'' @ nb_hyphen @ ''First' style'' @ em_dash @ ''warm, intellectually stimulating, and deeply authentic.''"

definition ASSIGNMENT_sermonEnhancer :: string where
  "ASSIGNMENT_sermonEnhancer = join '' ''
    [''Perform TWO distinct tasks in a single response:'',
     ''1) Analyze the draft for clarity, theological flow, and emotional resonance.'',
     ''2) Then rewrite the sermon (~2000 words) for spoken delivery, optimizing for the ear (cadence, signposting, repetition for emphasis).'']"

definition ROLE_bibleStudyTool :: string where
  "ROLE_bibleStudyTool =
     ''Act as an expert Bible study curriculum writer.''"

definition ASSIGNMENT_bibleStudyTool :: string where
  "ASSIGNMENT_bibleStudyTool = join '' ''
    [''Create comprehensive, practical, and engaging Bible study guides for any provided topic.'',
     ''Emphasize practical, real-world application for today's Christian in every guide.'',
     ''Ensure all interpretations are biblically accurate and align with Christian doctrine.'',
     ''Integrate relevant illustrations or analogies to clarify and make concepts relatable.'',
     ''Structure every guide using EXACTLY these four sections:'',
     ''  '' @ bullet @ '' Icebreaker: Begin with a brief, relevant question or activity to open discussion.'',
     ''  '' @ bullet @ '' Discussion Questions: Provide ~8 insightful questions based on the passage/topic, EACH with a suggested answer to guide the study leader.'',
     ''  '' @ bullet @ '' Application: Provide clear, actionable steps that participants can practice this week.'',
     ''  '' @ bullet @ '' Prayer: Close with a short, heartfelt prayer aligned with the study's main message.'',
     ''Maintain a helpful, neutral, respectful, Christ-like tone in all responses.'']"

definition ROLE_biblicalApplications :: string where
  "ROLE_biblicalApplications =
     ''You are a biblically faithful teacher focused on practical discipleship.''"

definition ASSIGNMENT_biblicalApplications :: string where
  "ASSIGNMENT_biblicalApplications =
     ''Given a passage or topic, list concrete life applications with Scripture support.''"

text \<open>
  \<^verbatim>\<open>function systemFor(task, mode = 'default')\<close>: the default applies to an argument that
  is \<^verbatim>\<open>undefined\<close>; \<^verbatim>\<open>===\<close> against a string literal holds for that string only. Each
  \<^verbatim>\<open>return\<close> is a template literal.
\<close>

definition systemFor :: "json \<Rightarrow> json \<Rightarrow> string" where
  "systemFor task mode0 =
     (let mode = (if mode0 = JUndefined then JStr ''default'' else mode0) in
      if task = JStr ''sermonCrafter'' then
        (if mode = JStr ''outline'' then
           ROLE_sermonCrafter @ nl @ ASSIGNMENT_outline @ nl @ GENERAL_GUIDELINES @ nl @ HUMAN_VOICE
         else
           ROLE_sermonCrafter @ nl @ ASSIGNMENT_FULL @ nl @ GENERAL_GUIDELINES @ nl @ HUMAN_VOICE)
      else if task = JStr ''sermonEnhancer'' then
        ROLE_sermonEnhancer @ nl @ ASSIGNMENT_sermonEnhancer @ nl @ GENERAL_GUIDELINES @ nl @ HUMAN_VOICE
      else if task = JStr ''bibleStudyTool'' then
        ROLE_bibleStudyTool @ nl @ ASSIGNMENT_bibleStudyTool @ nl @ GENERAL_GUIDELINES @ nl @ HUMAN_VOICE
      else if task = JStr ''biblicalApplications'' then
        ROLE_biblicalApplications @ nl @ ASSIGNMENT_biblicalApplications @ nl @ GENERAL_GUIDELINES @ nl @ HUMAN_VOICE
      else
        ''You are a helpful assistant for pastoral ministry. '' @ GENERAL_GUIDELINES @ '' '' @ HUMAN_VOICE)"

section \<open>The generate route\<close>

subsection \<open>Exceptions and the operators of the handler\<close>

text \<open>
  What a \<^verbatim>\<open>throw\<close> or a rejected promise carries to the \<^verbatim>\<open>catch\<close> of the handler:
  an exception with a known message, or a \<^verbatim>\<open>TypeError\<close> of the runtime, whose wording
  belongs to the engine.
\<close>

datatype fault = Thrown string | TypeError

definition andThen :: "fault + 'a \<Rightarrow> ('a \<Rightarrow> fault + 'b) \<Rightarrow> fault + 'b" where
  "andThen m f = (case m of Inl e \<Rightarrow> Inl e | Inr x \<Rightarrow> f x)"

text \<open>\<^verbatim>\<open>!v\<close> is \<open>\<not> truthy v\<close>.\<close>

fun truthy :: "json \<Rightarrow> bool" where
  "truthy JUndefined = False"
| "truthy JNull = False"
| "truthy (JBool b) = b"
| "truthy (JNum nz s) = nz"
| "truthy (JStr s) = (s \<noteq> [])"
| "truthy (JArr xs) = True"
| "truthy (JObj kvs) = True"

definition nullish :: "json \<Rightarrow> bool" where
  "nullish v = (v = JUndefined \<or> v = JNull)"

text \<open>
  \<^verbatim>\<open>v.k\<close>, for the property names this server reads (\<^verbatim>\<open>provider\<close>, \<^verbatim>\<open>task\<close>, \<^verbatim>\<open>input\<close>,
  \<^verbatim>\<open>mode\<close>, \<^verbatim>\<open>choices\<close>, \<^verbatim>\<open>message\<close>, \<^verbatim>\<open>content\<close>, \<^verbatim>\<open>candidates\<close>, \<^verbatim>\<open>parts\<close>, \<^verbatim>\<open>text\<close>): no
  prototype defines one of them, so only an object can have it, and reading it from
  \<^verbatim>\<open>undefined\<close> or \<^verbatim>\<open>null\<close> throws.
\<close>

fun get_prop :: "json \<Rightarrow> string \<Rightarrow> fault + json" where
  "get_prop JUndefined k = Inl TypeError"
| "get_prop JNull k = Inl TypeError"
| "get_prop (JObj kvs) k = Inr (case map_of kvs k of None \<Rightarrow> JUndefined | Some v \<Rightarrow> v)"
| "get_prop v k = Inr JUndefined"

text \<open>
  The first UTF-16 unit of a string, as a string of its own. A character of one, two or
  three bytes is one unit. A character of four bytes is two units, a surrogate pair; its
  first unit, the high surrogate, is no character, and is written here in the three-byte
  scheme of its code.
\<close>

fun first_unit :: "string \<Rightarrow> string" where
  "first_unit [] = []"
| "first_unit (b # bs) =
     (let n = (of_char b :: nat) in
      if n < 0xC0 then [b]
      else if n < 0xE0 then take 2 (b # bs)
      else if n < 0xF0 then take 3 (b # bs)
      else (case bs of
              b1 # b2 # b3 # _ \<Rightarrow>
                (let cp = (n mod 8) * 0x40000 + (of_char b1 mod 0x40) * 0x1000
                            + (of_char b2 mod 0x40) * 0x40 + of_char b3 mod 0x40;
                     hi = 0xD800 + (cp - 0x10000) div 0x400
                 in [CHR 0xED, char_of (0x80 + (hi div 0x40) mod 0x40),
                     char_of (0x80 + hi mod 0x40)])
            | _ \<Rightarrow> [b]))"

text \<open>
  \<^verbatim>\<open>v[0]\<close>: the first element of an array, the first unit of a string, the property
  \<^verbatim>\<open>"0"\<close> of an object.
\<close>

fun index0 :: "json \<Rightarrow> fault + json" where
  "index0 JUndefined = Inl TypeError"
| "index0 JNull = Inl TypeError"
| "index0 (JArr xs) = Inr (case xs of [] \<Rightarrow> JUndefined | x # _ \<Rightarrow> x)"
| "index0 (JStr s) = Inr (case s of [] \<Rightarrow> JUndefined | _ # _ \<Rightarrow> JStr (first_unit s))"
| "index0 (JObj kvs) = Inr (case map_of kvs ''0'' of None \<Rightarrow> JUndefined | Some v \<Rightarrow> v)"
| "index0 v = Inr JUndefined"

text \<open>\<^verbatim>\<open>v?.k\<close> and \<^verbatim>\<open>v?.[0]\<close>: \<^verbatim>\<open>undefined\<close> when \<open>v\<close> is nullish.\<close>

definition opt :: "json \<Rightarrow> (json \<Rightarrow> fault + json) \<Rightarrow> fault + json" where
  "opt v f = (if nullish v then Inr JUndefined else f v)"

text \<open>\<^verbatim>\<open>a ?? b\<close>.\<close>

definition coalesce :: "json \<Rightarrow> json \<Rightarrow> json" where
  "coalesce a b = (if nullish a then b else a)"

text \<open>A destructuring default (\<^verbatim>\<open>{ k = d }\<close>) replaces \<^verbatim>\<open>undefined\<close> only.\<close>

definition default_to :: "json \<Rightarrow> json \<Rightarrow> json" where
  "default_to d v = (if v = JUndefined then d else v)"

text \<open>
  \<^verbatim>\<open>String(v)\<close>, as a template literal and \<^verbatim>\<open>join\<close> apply it. An array renders as its
  elements joined by commas; an object renders as \<^verbatim>\<open>[object Object]\<close>, unless it has a
  property \<^verbatim>\<open>toString\<close> of its own: a parsed value is no function, and the conversion
  throws. \<^verbatim>\<open>join\<close> renders \<^verbatim>\<open>undefined\<close> and \<^verbatim>\<open>null\<close> as the empty string.
\<close>

fun toStr :: "json \<Rightarrow> fault + string"
  and join_values :: "string \<Rightarrow> json list \<Rightarrow> fault + string" where
  "toStr JUndefined = Inr ''undefined''"
| "toStr JNull = Inr ''null''"
| "toStr (JBool b) = Inr (if b then ''true'' else ''false'')"
| "toStr (JNum nz s) = Inr s"
| "toStr (JStr s) = Inr s"
| "toStr (JArr xs) = join_values '','' xs"
| "toStr (JObj kvs) =
     (if map_of kvs ''toString'' = None then Inr ''[object Object]'' else Inl TypeError)"
| "join_values sep [] = Inr []"
| "join_values sep (x # xs) =
     andThen (if nullish x then Inr [] else toStr x) (\<lambda>s.
       if xs = [] then Inr s
       else andThen (join_values sep xs) (\<lambda>rest. Inr (s @ sep @ rest)))"

subsection \<open>Requests, responses, replies\<close>

text \<open>
  The argument of \<^verbatim>\<open>fetch\<close>. \<open>req_body\<close> is the value handed to \<^verbatim>\<open>JSON.stringify\<close>.
\<close>

record request =
  req_url :: string
  req_method :: string
  req_headers :: "(string \<times> string) list"
  req_body :: json

text \<open>
  What \<^verbatim>\<open>fetch\<close> resolves to: the status, and what \<^verbatim>\<open>r.text()\<close> and \<^verbatim>\<open>r.json()\<close> yield
  (each may reject). \<^verbatim>\<open>r.ok\<close> is a status from 200 to 299.
\<close>

record response =
  resp_status :: nat
  resp_text :: "fault + string"
  resp_json :: "fault + json"

definition resp_ok :: "response \<Rightarrow> bool" where
  "resp_ok r = (200 \<le> resp_status r \<and> resp_status r < 300)"

type_synonym transport = "request \<Rightarrow> fault + response"

text \<open>\<^verbatim>\<open>process.env\<close>.\<close>

type_synonym env = "string \<Rightarrow> string option"

text \<open>The value of a variable that is truthy: set, and not the empty string.\<close>

definition present :: "string option \<Rightarrow> string option" where
  "present v = (case v of None \<Rightarrow> None | Some s \<Rightarrow> if s = [] then None else Some s)"

text \<open>
  The reply: \<^verbatim>\<open>res.status(n).json({ ok:true, output })\<close> is \<open>Reply n (Output output)\<close>
  (\<open>n\<close> is 200 where the source sets no status) and
  \<^verbatim>\<open>res.status(n).json({ ok:false, error })\<close> is \<open>Reply n (Failed error)\<close>. The error text is
  a string of the program or of the vendor, or the message of a runtime \<^verbatim>\<open>TypeError\<close>.
\<close>

datatype msg = Text string | EngineText

datatype payload = Output json | Failed msg

datatype reply = Reply nat payload

fun message :: "fault \<Rightarrow> msg" where
  "message (Thrown m) = Text m"
| "message TypeError = EngineText"

subsection \<open>Reading the vendor's answer\<close>

text \<open>\<^verbatim>\<open>data.choices?.[0]?.message?.content ?? ''\<close> (OpenAI and Azure OpenAI).\<close>

definition chat_content :: "json \<Rightarrow> fault + json" where
  "chat_content data =
     andThen (get_prop data ''choices'') (\<lambda>choices.
     andThen (opt choices index0) (\<lambda>first.
     andThen (opt first (\<lambda>v. get_prop v ''message'')) (\<lambda>m.
     andThen (opt m (\<lambda>v. get_prop v ''content'')) (\<lambda>content.
     Inr (coalesce content (JStr []))))))"

text \<open>\<^verbatim>\<open>parts.map(p => p.text)\<close> on an array.\<close>

fun texts_of :: "json list \<Rightarrow> fault + json list" where
  "texts_of [] = Inr []"
| "texts_of (p # ps) =
     andThen (get_prop p ''text'') (\<lambda>t.
     andThen (texts_of ps) (\<lambda>ts. Inr (t # ts)))"

text \<open>
  \<^verbatim>\<open>data.candidates?.[0]?.content?.parts?.map(p=>p.text).join('') ?? ''\<close> (Gemini). A nullish
  link ends the whole chain with \<^verbatim>\<open>undefined\<close>; \<^verbatim>\<open>parts\<close> that is there must be an array,
  since nothing else has a method \<^verbatim>\<open>map\<close>.
\<close>

definition candidate_text :: "json \<Rightarrow> fault + json" where
  "candidate_text data =
     andThen (get_prop data ''candidates'') (\<lambda>candidates.
     andThen (opt candidates index0) (\<lambda>first.
     andThen (opt first (\<lambda>v. get_prop v ''content'')) (\<lambda>content.
     andThen (opt content (\<lambda>v. get_prop v ''parts'')) (\<lambda>parts.
     if nullish parts then Inr (coalesce JUndefined (JStr []))
     else (case parts of
             JArr ps \<Rightarrow>
               andThen (texts_of ps) (\<lambda>ts.
               andThen (join_values [] ts) (\<lambda>s. Inr (coalesce (JStr s) (JStr []))))
           | _ \<Rightarrow> Inl TypeError)))))"

subsection \<open>The three providers\<close>

text \<open>
  Each branch of \<^verbatim>\<open>/api/generate\<close> returns what the \<^verbatim>\<open>try\<close> block yields there (a reply,
  or the exception thrown) and the calls of \<^verbatim>\<open>fetch\<close> it made, in order.
\<close>

definition chatgpt :: "env \<Rightarrow> transport \<Rightarrow> string \<Rightarrow> json \<Rightarrow> (fault + reply) \<times> request list" where
  "chatgpt env fetch system input =
     (case present (env ''OPENAI_API_KEY'') of
        None \<Rightarrow> (Inl (Thrown ''OPENAI_API_KEY missing''), [])
      | Some key \<Rightarrow>
          (let req = \<lparr>req_url = ''https://api.openai.com/v1/chat/completions'',
                      req_method = ''POST'',
                      req_headers = [(''Authorization'', ''Bearer '' @ key),
                                     (''Content-Type'', ''application/json'')],
                      req_body = JObj
                        [(''model'', JStr ''gpt-4o-mini''),
                         (''messages'', JArr
                            [JObj [(''role'', JStr ''system''), (''content'', JStr system)],
                             JObj [(''role'', JStr ''user''), (''content'', input)]]),
                         (''temperature'', JNum True ''0.85''),
                         (''presence_penalty'', JNum True ''0.2''),
                         (''frequency_penalty'', JNum True ''0.2'')]\<rparr>
           in (andThen (fetch req) (\<lambda>r.
                 if \<not> resp_ok r then
                   andThen (resp_text r) (\<lambda>t. Inr (Reply 500 (Failed (Text t))))
                 else
                   andThen (resp_json r) (\<lambda>data.
                   andThen (chat_content data) (\<lambda>out. Inr (Reply 200 (Output out))))),
               [req])))"

definition gemini :: "env \<Rightarrow> transport \<Rightarrow> string \<Rightarrow> json \<Rightarrow> (fault + reply) \<times> request list" where
  "gemini env fetch system input =
     (case present (env ''GOOGLE_API_KEY'') of
        None \<Rightarrow> (Inl (Thrown ''GOOGLE_API_KEY missing''), [])
      | Some key \<Rightarrow>
          (let model = ''gemini-2.5-flash'';
               url = ''https://generativelanguage.googleapis.com/v1beta/models/'' @ model
                       @ '':generateContent''
           in case toStr input of
                Inl e \<Rightarrow> (Inl e, [])
              | Inr input_text \<Rightarrow>
                  (let req = \<lparr>req_url = url,
                              req_method = ''POST'',
                              req_headers = [(''x-goog-api-key'', key),
                                             (''Content-Type'', ''application/json'')],
                              req_body = JObj
                                [(''contents'', JArr
                                    [JObj [(''role'', JStr ''user''),
                                           (''parts'', JArr
                                              [JObj [(''text'', JStr (system @ nl @ nl @ ''User:''
                                                                       @ nl @ input_text))]])]]),
                                 (''generationConfig'', JObj [(''temperature'', JNum True ''0.7'')])]\<rparr>
                   in (andThen (fetch req) (\<lambda>r.
                         if \<not> resp_ok r then
                           andThen (resp_text r) (\<lambda>t. Inr (Reply 500 (Failed (Text t))))
                         else
                           andThen (resp_json r) (\<lambda>data.
                           andThen (candidate_text data) (\<lambda>text. Inr (Reply 200 (Output text))))),
                       [req]))))"

definition copilot :: "env \<Rightarrow> transport \<Rightarrow> string \<Rightarrow> json \<Rightarrow> (fault + reply) \<times> request list" where
  "copilot env fetch system input =
     (case (present (env ''AZURE_OPENAI_KEY''), present (env ''AZURE_OPENAI_ENDPOINT''),
            present (env ''AZURE_OPENAI_DEPLOYMENT'')) of
        (Some key, Some ep, Some dep) \<Rightarrow>
          (let url = ep @ ''/openai/deployments/'' @ dep
                       @ ''/chat/completions?api-version=2024-06-01'';
               req = \<lparr>req_url = url,
                      req_method = ''POST'',
                      req_headers = [(''api-key'', key), (''Content-Type'', ''application/json'')],
                      req_body = JObj
                        [(''messages'', JArr
                            [JObj [(''role'', JStr ''system''), (''content'', JStr system)],
                             JObj [(''role'', JStr ''user''), (''content'', input)]]),
                         (''temperature'', JNum True ''0.85''),
                         (''presence_penalty'', JNum True ''0.2''),
                         (''frequency_penalty'', JNum True ''0.2'')]\<rparr>
           in (andThen (fetch req) (\<lambda>r.
                 if \<not> resp_ok r then
                   andThen (resp_text r) (\<lambda>t. Inr (Reply 500 (Failed (Text t))))
                 else
                   andThen (resp_json r) (\<lambda>data.
                   andThen (chat_content data) (\<lambda>text. Inr (Reply 200 (Output text))))),
               [req]))
      | _ \<Rightarrow> (Inl (Thrown ''Azure OpenAI env missing''), []))"

subsection \<open>The handler\<close>

text \<open>
  \<^verbatim>\<open>const { provider = 'chatgpt', task, input, mode = 'default' } = req.body || {}\<close>:
  a falsy body gives way to the empty object; the four properties are then read from
  what is left, whatever it is.
\<close>

definition body_or_empty :: "json \<Rightarrow> json" where
  "body_or_empty body = (if truthy body then body else JObj [])"

definition destructure :: "json \<Rightarrow> fault + (json \<times> json \<times> json \<times> json)" where
  "destructure body =
     (let src = body_or_empty body in
      andThen (get_prop src ''provider'') (\<lambda>provider.
      andThen (get_prop src ''task'') (\<lambda>task.
      andThen (get_prop src ''input'') (\<lambda>input.
      andThen (get_prop src ''mode'') (\<lambda>mode.
      Inr (default_to (JStr ''chatgpt'') provider, task, input,
           default_to (JStr ''default'') mode))))))"

text \<open>The \<^verbatim>\<open>try\<close> block of \<^verbatim>\<open>/api/generate\<close>.\<close>

definition generate_try :: "env \<Rightarrow> transport \<Rightarrow> json \<Rightarrow> (fault + reply) \<times> request list" where
  "generate_try env fetch body =
     (case destructure body of
        Inl e \<Rightarrow> (Inl e, [])
      | Inr (provider, task, input, mode) \<Rightarrow>
          if \<not> truthy task \<or> \<not> truthy input then
            (Inr (Reply 400 (Failed (Text ''task and input required''))), [])
          else
            (let system = systemFor task mode in
             if provider = JStr ''chatgpt'' then chatgpt env fetch system input
             else if provider = JStr ''gemini'' then gemini env fetch system input
             else if provider = JStr ''copilot'' then copilot env fetch system input
             else (Inr (Reply 400 (Failed (Text ''Unknown provider''))), [])))"

text \<open>
  The handler with its \<^verbatim>\<open>catch\<close>: the reply sent for the request body \<open>body\<close>, and the
  calls of \<^verbatim>\<open>fetch\<close> made on the way.
\<close>

definition generate :: "env \<Rightarrow> transport \<Rightarrow> json \<Rightarrow> reply \<times> request list" where
  "generate env fetch body =
     (case generate_try env fetch body of
        (Inl e, calls) \<Rightarrow> (Reply 500 (Failed (message e)), calls)
      | (Inr rep, calls) \<Rightarrow> (rep, calls))"

section \<open>Vocabulary of the properties\<close>

text \<open>
  The predicates below describe inputs; they are not part of the server. A request body is
  an object when \<^verbatim>\<open>JSON.parse\<close> made it from \<^verbatim>\<open>{ ... }\<close>; everything else (nothing
  at all, \<^verbatim>\<open>null\<close>, a boolean, a number, a string, an array) is not.
\<close>

fun is_object :: "json \<Rightarrow> bool" where
  "is_object (JObj kvs) = True"
| "is_object v = False"

text \<open>
  The provider of a request can be called: it is one of the three, each of its environment
  variables is set and not empty, and, for Gemini, the input can be rendered as a string
  for the combined message.
\<close>

definition ready :: "env \<Rightarrow> json \<Rightarrow> json \<Rightarrow> bool" where
  "ready env provider input =
     ((provider = JStr ''chatgpt'' \<and> present (env ''OPENAI_API_KEY'') \<noteq> None)
    \<or> (provider = JStr ''gemini'' \<and> present (env ''GOOGLE_API_KEY'') \<noteq> None
         \<and> (case toStr input of Inl e \<Rightarrow> False | Inr s \<Rightarrow> True))
    \<or> (provider = JStr ''copilot'' \<and> present (env ''AZURE_OPENAI_KEY'') \<noteq> None
         \<and> present (env ''AZURE_OPENAI_ENDPOINT'') \<noteq> None
         \<and> present (env ''AZURE_OPENAI_DEPLOYMENT'') \<noteq> None))"

text \<open>
  A chat-completion answer (OpenAI, Azure OpenAI) without generated text: an object whose
  \<^verbatim>\<open>choices\<close> is absent, \<^verbatim>\<open>null\<close> or the empty array, or whose first choice is \<^verbatim>\<open>null\<close> or
  an object whose \<^verbatim>\<open>message\<close> is absent or \<^verbatim>\<open>null\<close>, or is an object whose \<^verbatim>\<open>content\<close> is
  absent or \<^verbatim>\<open>null\<close>.
\<close>

fun message_without_content :: "json \<Rightarrow> bool" where
  "message_without_content JUndefined = True"
| "message_without_content JNull = True"
| "message_without_content (JObj m) =
     (case map_of m ''content'' of None \<Rightarrow> True | Some v \<Rightarrow> nullish v)"
| "message_without_content v = False"

fun choice_without_text :: "json \<Rightarrow> bool" where
  "choice_without_text JUndefined = True"
| "choice_without_text JNull = True"
| "choice_without_text (JObj c) =
     (case map_of c ''message'' of None \<Rightarrow> True | Some m \<Rightarrow> message_without_content m)"
| "choice_without_text v = False"

fun choices_without_text :: "json \<Rightarrow> bool" where
  "choices_without_text JUndefined = True"
| "choices_without_text JNull = True"
| "choices_without_text (JArr []) = True"
| "choices_without_text (JArr (c # cs)) = choice_without_text c"
| "choices_without_text v = False"

fun no_chat_text :: "json \<Rightarrow> bool" where
  "no_chat_text (JObj d) =
     (case map_of d ''choices'' of None \<Rightarrow> True | Some cs \<Rightarrow> choices_without_text cs)"
| "no_chat_text v = False"

text \<open>
  The same for a Gemini answer: an object whose \<^verbatim>\<open>candidates\<close> is absent, \<^verbatim>\<open>null\<close> or the
  empty array, or whose first candidate is \<^verbatim>\<open>null\<close> or an object whose \<^verbatim>\<open>content\<close> is
  absent or \<^verbatim>\<open>null\<close>, or is an object whose \<^verbatim>\<open>parts\<close> is absent or \<^verbatim>\<open>null\<close>, or is an
  array of objects each of which has no \<^verbatim>\<open>text\<close> or the \<^verbatim>\<open>text\<close> \<^verbatim>\<open>null\<close>.
\<close>

fun part_without_text :: "json \<Rightarrow> bool" where
  "part_without_text (JObj p) =
     (case map_of p ''text'' of None \<Rightarrow> True | Some v \<Rightarrow> nullish v)"
| "part_without_text v = False"

fun parts_without_text :: "json \<Rightarrow> bool" where
  "parts_without_text JUndefined = True"
| "parts_without_text JNull = True"
| "parts_without_text (JArr ps) = list_all part_without_text ps"
| "parts_without_text v = False"

fun content_without_text :: "json \<Rightarrow> bool" where
  "content_without_text JUndefined = True"
| "content_without_text JNull = True"
| "content_without_text (JObj c) =
     (case map_of c ''parts'' of None \<Rightarrow> True | Some ps \<Rightarrow> parts_without_text ps)"
| "content_without_text v = False"

fun candidate_without_text :: "json \<Rightarrow> bool" where
  "candidate_without_text JUndefined = True"
| "candidate_without_text JNull = True"
| "candidate_without_text (JObj c) =
     (case map_of c ''content'' of None \<Rightarrow> True | Some co \<Rightarrow> content_without_text co)"
| "candidate_without_text v = False"

fun candidates_without_text :: "json \<Rightarrow> bool" where
  "candidates_without_text JUndefined = True"
| "candidates_without_text JNull = True"
| "candidates_without_text (JArr []) = True"
| "candidates_without_text (JArr (c # cs)) = candidate_without_text c"
| "candidates_without_text v = False"

fun no_candidate_text :: "json \<Rightarrow> bool" where
  "no_candidate_text (JObj d) =
     (case map_of d ''candidates'' of None \<Rightarrow> True | Some cs \<Rightarrow> candidates_without_text cs)"
| "no_candidate_text v = False"

text \<open>The answer of the provider has no generated text.\<close>

definition no_text :: "json \<Rightarrow> json \<Rightarrow> bool" where
  "no_text provider data =
     (if provider = JStr ''gemini'' then no_candidate_text data else no_chat_text data)"

section \<open>Properties of the prompt builder\<close>

subsection \<open>Substrings\<close>

text \<open>
  ``The prompt contains the block'' is \<open>sublist block prompt\<close>: the block occurs in the
  prompt as one contiguous run of bytes.
\<close>

lemma sublist_in_right: "sublist x b \<Longrightarrow> sublist x (a @ b)"
  unfolding sublist_def
proof -
  assume "\<exists>ps ss. b = ps @ x @ ss"
  then obtain ps ss where "b = ps @ x @ ss" by blast
  then have "a @ b = (a @ ps) @ x @ ss" by simp
  then show "\<exists>ps ss. a @ b = ps @ x @ ss" by blast
qed

lemma sublist_in_left: "sublist x a \<Longrightarrow> sublist x (a @ b)"
  unfolding sublist_def
proof -
  assume "\<exists>ps ss. a = ps @ x @ ss"
  then obtain ps ss where "a = ps @ x @ ss" by blast
  then have "a @ b = ps @ x @ (ss @ b)" by simp
  then show "\<exists>ps ss. a @ b = ps @ x @ ss" by blast
qed

lemma sublist_join: "x \<in> set xs \<Longrightarrow> sublist x (join sep xs)"
proof (induction sep xs rule: join.induct)
  case (1 sep)
  then show ?case by simp
next
  case (2 sep y)
  then show ?case by simp
next
  case (3 sep y z zs)
  show ?case
  proof (cases "x = y")
    case True
    then show ?thesis by simp
  next
    case False
    with 3 have "sublist x (join sep (z # zs))" by simp
    then have "sublist x ((y @ sep) @ join sep (z # zs))"
      by (rule sublist_in_right)
    then show ?thesis by simp
  qed
qed

lemma sublist_across:
  assumes "c \<notin> set n" and "sublist n (a @ c # b)"
  shows "sublist n a \<or> sublist n b"
proof -
  from assms(2) obtain ps ss where eq: "a @ c # b = ps @ n @ ss"
    unfolding sublist_def by blast
  then consider us where "a = ps @ us" "us @ c # b = n @ ss"
    | us where "a @ us = ps" "c # b = us @ n @ ss"
    by (auto simp: append_eq_append_conv2)
  then show ?thesis
  proof cases
    case 1
    from 1(2) consider vs where "us = n @ vs"
      | vs where "us @ vs = n" "c # b = vs @ ss"
      by (auto simp: append_eq_append_conv2)
    then show ?thesis
    proof cases
      case 1
      with \<open>a = ps @ us\<close> have "a = ps @ n @ vs" by simp
      then show ?thesis unfolding sublist_def by blast
    next
      case 2
      show ?thesis
      proof (cases vs)
        case Nil
        with 2 \<open>a = ps @ us\<close> have "a = ps @ n @ []" by simp
        then show ?thesis unfolding sublist_def by blast
      next
        case (Cons v vs')
        with 2 have "c \<in> set n" by auto
        with assms(1) show ?thesis by contradiction
      qed
    qed
  next
    case 2
    show ?thesis
    proof (cases us)
      case Nil
      with 2(2) have "c # b = n @ ss" by simp
      with assms(1) have "n = []" by (cases n) auto
      then show ?thesis by simp
    next
      case (Cons u us')
      with 2(2) have "b = us' @ n @ ss" by simp
      then show ?thesis unfolding sublist_def by blast
    qed
  qed
qed

lemma sublist_has_chars: "sublist n h \<Longrightarrow> c \<in> set n \<Longrightarrow> c \<in> set h"
  using set_mono_sublist by blast

lemma in_second_block: "sublist x a \<Longrightarrow> sublist x (r @ s @ a @ rest)"
  by (intro sublist_in_right sublist_in_left)

subsection \<open>The branches of \<^verbatim>\<open>systemFor\<close>\<close>

lemma systemFor_outline:
  "systemFor (JStr ''sermonCrafter'') (JStr ''outline'') =
     ROLE_sermonCrafter @ nl @ ASSIGNMENT_outline @ nl @ GENERAL_GUIDELINES @ nl @ HUMAN_VOICE"
  by (simp add: systemFor_def)

lemma systemFor_full:
  "mode \<noteq> JStr ''outline'' \<Longrightarrow>
   systemFor (JStr ''sermonCrafter'') mode =
     ROLE_sermonCrafter @ nl @ ASSIGNMENT_FULL @ nl @ GENERAL_GUIDELINES @ nl @ HUMAN_VOICE"
  by (simp add: systemFor_def)

lemma systemFor_sermonCrafter:
  "systemFor (JStr ''sermonCrafter'') mode =
     ROLE_sermonCrafter @ nl
       @ (if mode = JStr ''outline'' then ASSIGNMENT_outline else ASSIGNMENT_FULL) @ nl
       @ GENERAL_GUIDELINES @ nl @ HUMAN_VOICE"
  by (simp add: systemFor_def)

lemma systemFor_known:
  "systemFor (JStr ''sermonEnhancer'') mode =
     ROLE_sermonEnhancer @ nl @ ASSIGNMENT_sermonEnhancer @ nl @ GENERAL_GUIDELINES @ nl @ HUMAN_VOICE"
  "systemFor (JStr ''bibleStudyTool'') mode =
     ROLE_bibleStudyTool @ nl @ ASSIGNMENT_bibleStudyTool @ nl @ GENERAL_GUIDELINES @ nl @ HUMAN_VOICE"
  "systemFor (JStr ''biblicalApplications'') mode =
     ROLE_biblicalApplications @ nl @ ASSIGNMENT_biblicalApplications @ nl @ GENERAL_GUIDELINES @ nl
       @ HUMAN_VOICE"
  by (simp_all add: systemFor_def)

lemma systemFor_fallback:
  "task \<notin> {JStr ''sermonCrafter'', JStr ''sermonEnhancer'', JStr ''bibleStudyTool'',
            JStr ''biblicalApplications''} \<Longrightarrow>
   systemFor task mode =
     ''You are a helpful assistant for pastoral ministry. '' @ GENERAL_GUIDELINES @ '' '' @ HUMAN_VOICE"
  by (simp add: systemFor_def)

lemma excluded_middle_chain: "a \<or> b \<or> c \<or> d \<or> (\<not> a \<and> \<not> b \<and> \<not> c \<and> \<not> d)"
  by blast

subsection \<open>Characters and phrases of the blocks\<close>

lemma no_nl_GENERAL_GUIDELINES: "CHR 0x0A \<notin> set GENERAL_GUIDELINES"
  by (simp add: GENERAL_GUIDELINES_def)

lemma no_nl_HUMAN_VOICE: "CHR 0x0A \<notin> set HUMAN_VOICE"
  by (simp add: HUMAN_VOICE_def)

lemma no_nl_roles:
  "CHR 0x0A \<notin> set ROLE_sermonCrafter"
  "CHR 0x0A \<notin> set ROLE_sermonEnhancer"
  "CHR 0x0A \<notin> set ROLE_bibleStudyTool"
  "CHR 0x0A \<notin> set ROLE_biblicalApplications"
  by (simp_all add: ROLE_sermonCrafter_def ROLE_sermonEnhancer_def ROLE_bibleStudyTool_def
      ROLE_biblicalApplications_def)

lemma no_nl_assignments:
  "CHR 0x0A \<notin> set ASSIGNMENT_outline"
  "CHR 0x0A \<notin> set ASSIGNMENT_FULL"
  "CHR 0x0A \<notin> set ASSIGNMENT_sermonEnhancer"
  "CHR 0x0A \<notin> set ASSIGNMENT_bibleStudyTool"
  "CHR 0x0A \<notin> set ASSIGNMENT_biblicalApplications"
  by (simp_all add: ASSIGNMENT_outline_def ASSIGNMENT_FULL_def ASSIGNMENT_sermonEnhancer_def
      ASSIGNMENT_bibleStudyTool_def ASSIGNMENT_biblicalApplications_def)

lemma no_tilde_outline:
  "CHR ''~'' \<notin> set ROLE_sermonCrafter"
  "CHR ''~'' \<notin> set ASSIGNMENT_outline"
  "CHR ''~'' \<notin> set GENERAL_GUIDELINES"
  "CHR ''~'' \<notin> set HUMAN_VOICE"
  by (simp_all add: ROLE_sermonCrafter_def ASSIGNMENT_outline_def GENERAL_GUIDELINES_def
      HUMAN_VOICE_def)

lemma no_tilde_outline_prompt:
  "CHR ''~'' \<notin> set (systemFor (JStr ''sermonCrafter'') (JStr ''outline''))"
  by (simp add: systemFor_outline no_tilde_outline)

lemma no_STOP_blocks:
  "\<not> sublist ''STOP'' ROLE_sermonCrafter"
  "\<not> sublist ''STOP'' ASSIGNMENT_FULL"
  "\<not> sublist ''STOP'' GENERAL_GUIDELINES"
  "\<not> sublist ''STOP'' HUMAN_VOICE"
  by (simp_all add: ROLE_sermonCrafter_def ASSIGNMENT_FULL_def GENERAL_GUIDELINES_def
      HUMAN_VOICE_def sublist_code)

lemma no_STOP_full:
  "\<not> sublist ''STOP''
      (ROLE_sermonCrafter @ nl @ ASSIGNMENT_FULL @ nl @ GENERAL_GUIDELINES @ nl @ HUMAN_VOICE)"
proof
  let ?n = "''STOP''"
  have c: "CHR 0x0A \<notin> set ?n" by simp
  assume "sublist ?n
      (ROLE_sermonCrafter @ nl @ ASSIGNMENT_FULL @ nl @ GENERAL_GUIDELINES @ nl @ HUMAN_VOICE)"
  then have "sublist ?n
      (ROLE_sermonCrafter @ CHR 0x0A # (ASSIGNMENT_FULL @ nl @ GENERAL_GUIDELINES @ nl @ HUMAN_VOICE))"
    by simp
  from sublist_across[OF c this] no_STOP_blocks(1)
  have "sublist ?n (ASSIGNMENT_FULL @ CHR 0x0A # (GENERAL_GUIDELINES @ nl @ HUMAN_VOICE))"
    by simp
  from sublist_across[OF c this] no_STOP_blocks(2)
  have "sublist ?n (GENERAL_GUIDELINES @ CHR 0x0A # HUMAN_VOICE)"
    by simp
  from sublist_across[OF c this] no_STOP_blocks(3,4)
  show False by simp
qed

lemma word_counts_in_ASSIGNMENT_FULL:
  "sublist ''Introduction (~200 words)'' ASSIGNMENT_FULL"
  "sublist ''Body (~1700 words)'' ASSIGNMENT_FULL"
  "sublist ''Conclusion (~200 words)'' ASSIGNMENT_FULL"
proof -
  have 1: "sublist ''Introduction (~200 words)''
    (bullet @ '' Introduction (~200 words): An engaging passage that introduces the topic and hooks the listener.'')"
    by (simp add: sublist_code)
  have 2: "sublist ''Body (~1700 words)''
    (bullet @ '' Body (~1700 words): For each of the 3'' @ en_dash @ ''5 sermon points, produce a complete teaching unit:'')"
    by (simp add: sublist_code)
  have 3: "sublist ''Conclusion (~200 words)''
    (bullet @ '' Conclusion (~200 words): A strong wrap'' @ nb_hyphen @ ''up that reinforces the main message and encourages application.'')"
    by (simp add: sublist_code)
  show "sublist ''Introduction (~200 words)'' ASSIGNMENT_FULL"
    unfolding ASSIGNMENT_FULL_def
    by (rule sublist_order.order_trans[OF 1 sublist_join]) simp
  show "sublist ''Body (~1700 words)'' ASSIGNMENT_FULL"
    unfolding ASSIGNMENT_FULL_def
    by (rule sublist_order.order_trans[OF 2 sublist_join]) simp
  show "sublist ''Conclusion (~200 words)'' ASSIGNMENT_FULL"
    unfolding ASSIGNMENT_FULL_def
    by (rule sublist_order.order_trans[OF 3 sublist_join]) simp
qed

lemma stop_in_ASSIGNMENT_outline:
  "sublist ''Then STOP and wait for explicit user approval. Do NOT write the full sermon.''
     ASSIGNMENT_outline"
  unfolding ASSIGNMENT_outline_def by (rule sublist_join) simp

subsection \<open>The layout of the prompt\<close>

lemma layered_prompt_has_newline:
  "CHR 0x0A \<in> set (role @ nl @ assignment @ nl @ GENERAL_GUIDELINES @ nl @ HUMAN_VOICE)"
  by simp

text \<open>
  Claim C1 says that for every task and mode the prompt is the role block, the assignment
  block, the general guidelines and the voice guidelines, in that order, separated by
  newlines. It fails for a task that \<^verbatim>\<open>systemFor\<close> does not know: the last \<^verbatim>\<open>return\<close> builds
  one line, with no assignment block and with spaces between the parts. A prompt of the
  claimed layout contains a line feed; the prompt for the task \<^verbatim>\<open>devotional\<close> contains none.
\<close>

theorem fallback_prompt_has_no_newline:
  "systemFor (JStr ''devotional'') (JStr ''default'') =
     ''You are a helpful assistant for pastoral ministry. '' @ GENERAL_GUIDELINES @ '' '' @ HUMAN_VOICE
   \<and> CHR 0x0A \<notin> set (systemFor (JStr ''devotional'') (JStr ''default''))"
  by (simp add: systemFor_def no_nl_GENERAL_GUIDELINES no_nl_HUMAN_VOICE)

text \<open>
  Claim C1, amended: for each of the four tasks that \<^verbatim>\<open>systemFor\<close> knows, and any mode, the
  prompt is exactly the role block of the task, a line feed, the assignment block of the
  task (for \<^verbatim>\<open>sermonCrafter\<close> the outline assignment in the mode \<^verbatim>\<open>outline\<close> and the full
  assignment in every other mode), a line feed, the general guidelines, a line feed and
  the voice guidelines; none of these blocks contains a line feed. For every other task the
  prompt is the sentence of the generic assistant, the general guidelines and the voice
  guidelines, in that order, separated by single spaces; it has no assignment block and no
  line feed.
\<close>

theorem prompt_layout_by_task:
  "systemFor (JStr ''sermonCrafter'') mode =
     ROLE_sermonCrafter @ nl
       @ (if mode = JStr ''outline'' then ASSIGNMENT_outline else ASSIGNMENT_FULL) @ nl
       @ GENERAL_GUIDELINES @ nl @ HUMAN_VOICE
   \<and> systemFor (JStr ''sermonEnhancer'') mode =
     ROLE_sermonEnhancer @ nl @ ASSIGNMENT_sermonEnhancer @ nl @ GENERAL_GUIDELINES @ nl @ HUMAN_VOICE
   \<and> systemFor (JStr ''bibleStudyTool'') mode =
     ROLE_bibleStudyTool @ nl @ ASSIGNMENT_bibleStudyTool @ nl @ GENERAL_GUIDELINES @ nl @ HUMAN_VOICE
   \<and> systemFor (JStr ''biblicalApplications'') mode =
     ROLE_biblicalApplications @ nl @ ASSIGNMENT_biblicalApplications @ nl @ GENERAL_GUIDELINES @ nl
       @ HUMAN_VOICE
   \<and> (\<forall>block \<in> {ROLE_sermonCrafter, ASSIGNMENT_outline, ASSIGNMENT_FULL, ROLE_sermonEnhancer,
          ASSIGNMENT_sermonEnhancer, ROLE_bibleStudyTool, ASSIGNMENT_bibleStudyTool,
          ROLE_biblicalApplications, ASSIGNMENT_biblicalApplications, GENERAL_GUIDELINES,
          HUMAN_VOICE}.
        CHR 0x0A \<notin> set block)
   \<and> (task \<notin> {JStr ''sermonCrafter'', JStr ''sermonEnhancer'', JStr ''bibleStudyTool'',
               JStr ''biblicalApplications''} \<longrightarrow>
        systemFor task mode =
          ''You are a helpful assistant for pastoral ministry.'' @ '' '' @ GENERAL_GUIDELINES
            @ '' '' @ HUMAN_VOICE
      \<and> CHR 0x0A \<notin> set (systemFor task mode))"
proof (intro conjI impI ballI)
  show "systemFor (JStr ''sermonCrafter'') mode =
     ROLE_sermonCrafter @ nl
       @ (if mode = JStr ''outline'' then ASSIGNMENT_outline else ASSIGNMENT_FULL) @ nl
       @ GENERAL_GUIDELINES @ nl @ HUMAN_VOICE"
    by (rule systemFor_sermonCrafter)
  show "systemFor (JStr ''sermonEnhancer'') mode =
     ROLE_sermonEnhancer @ nl @ ASSIGNMENT_sermonEnhancer @ nl @ GENERAL_GUIDELINES @ nl @ HUMAN_VOICE"
    by (rule systemFor_known)
  show "systemFor (JStr ''bibleStudyTool'') mode =
     ROLE_bibleStudyTool @ nl @ ASSIGNMENT_bibleStudyTool @ nl @ GENERAL_GUIDELINES @ nl @ HUMAN_VOICE"
    by (rule systemFor_known)
  show "systemFor (JStr ''biblicalApplications'') mode =
     ROLE_biblicalApplications @ nl @ ASSIGNMENT_biblicalApplications @ nl @ GENERAL_GUIDELINES @ nl
       @ HUMAN_VOICE"
    by (rule systemFor_known)
next
  fix block
  assume "block \<in> {ROLE_sermonCrafter, ASSIGNMENT_outline, ASSIGNMENT_FULL, ROLE_sermonEnhancer,
          ASSIGNMENT_sermonEnhancer, ROLE_bibleStudyTool, ASSIGNMENT_bibleStudyTool,
          ROLE_biblicalApplications, ASSIGNMENT_biblicalApplications, GENERAL_GUIDELINES,
          HUMAN_VOICE}"
  then show "CHR 0x0A \<notin> set block"
    using no_nl_roles no_nl_assignments no_nl_GENERAL_GUIDELINES no_nl_HUMAN_VOICE
    by (elim insertE emptyE) (simp_all only: not_False_eq_True)
next
  assume u: "task \<notin> {JStr ''sermonCrafter'', JStr ''sermonEnhancer'', JStr ''bibleStudyTool'',
             JStr ''biblicalApplications''}"
  show "systemFor task mode =
          ''You are a helpful assistant for pastoral ministry.'' @ '' '' @ GENERAL_GUIDELINES
            @ '' '' @ HUMAN_VOICE"
    using systemFor_fallback[OF u] by simp
  show "CHR 0x0A \<notin> set (systemFor task mode)"
    using systemFor_fallback[OF u] by (simp add: no_nl_GENERAL_GUIDELINES no_nl_HUMAN_VOICE)
qed

theorem prompt_layout_by_task_witness:
  "systemFor (JStr ''sermonCrafter'') (JStr ''outline'') =
     ROLE_sermonCrafter @ nl @ ASSIGNMENT_outline @ nl @ GENERAL_GUIDELINES @ nl @ HUMAN_VOICE
   \<and> systemFor (JStr ''bibleStudyTool'') (JStr ''outline'') =
     ROLE_bibleStudyTool @ nl @ ASSIGNMENT_bibleStudyTool @ nl @ GENERAL_GUIDELINES @ nl @ HUMAN_VOICE
   \<and> CHR 0x0A \<notin> set ASSIGNMENT_outline
   \<and> JStr [] \<notin> {JStr ''sermonCrafter'', JStr ''sermonEnhancer'', JStr ''bibleStudyTool'',
             JStr ''biblicalApplications''}
   \<and> systemFor (JStr []) (JStr ''outline'') =
          ''You are a helpful assistant for pastoral ministry.'' @ '' '' @ GENERAL_GUIDELINES
            @ '' '' @ HUMAN_VOICE"
  using prompt_layout_by_task[where mode = "JStr ''outline''" and task = "JStr []"]
  by simp

subsection \<open>Outline and full sermon\<close>

text \<open>
  Claim C2: for the task \<^verbatim>\<open>sermonCrafter\<close> and the mode \<^verbatim>\<open>outline\<close> the prompt contains the
  instruction to stop and wait for approval, and none of the three word counts of the full
  sermon (introduction of about 200 words, body of about 1700, conclusion of about 200);
  for the same task and any other mode the prompt contains the three word counts and not
  the instruction to stop.
\<close>

theorem sermonCrafter_outline_or_full:
  "sublist ''Then STOP and wait for explicit user approval. Do NOT write the full sermon.''
     (systemFor (JStr ''sermonCrafter'') (JStr ''outline''))
   \<and> \<not> sublist ''Introduction (~200 words)'' (systemFor (JStr ''sermonCrafter'') (JStr ''outline''))
   \<and> \<not> sublist ''Body (~1700 words)'' (systemFor (JStr ''sermonCrafter'') (JStr ''outline''))
   \<and> \<not> sublist ''Conclusion (~200 words)'' (systemFor (JStr ''sermonCrafter'') (JStr ''outline''))
   \<and> (mode \<noteq> JStr ''outline'' \<longrightarrow>
        sublist ''Introduction (~200 words)'' (systemFor (JStr ''sermonCrafter'') mode)
      \<and> sublist ''Body (~1700 words)'' (systemFor (JStr ''sermonCrafter'') mode)
      \<and> sublist ''Conclusion (~200 words)'' (systemFor (JStr ''sermonCrafter'') mode)
      \<and> \<not> sublist ''Then STOP and wait for explicit user approval. Do NOT write the full sermon.''
            (systemFor (JStr ''sermonCrafter'') mode))"
proof (intro conjI impI)
  let ?out = "systemFor (JStr ''sermonCrafter'') (JStr ''outline'')"
  let ?stop = "''Then STOP and wait for explicit user approval. Do NOT write the full sermon.''"
  show "sublist ?stop ?out"
    unfolding systemFor_outline by (rule in_second_block[OF stop_in_ASSIGNMENT_outline])
  show "\<not> sublist ''Introduction (~200 words)'' ?out"
    using sublist_has_chars[of "''Introduction (~200 words)''" ?out "CHR ''~''"]
      no_tilde_outline_prompt by auto
  show "\<not> sublist ''Body (~1700 words)'' ?out"
    using sublist_has_chars[of "''Body (~1700 words)''" ?out "CHR ''~''"]
      no_tilde_outline_prompt by auto
  show "\<not> sublist ''Conclusion (~200 words)'' ?out"
    using sublist_has_chars[of "''Conclusion (~200 words)''" ?out "CHR ''~''"]
      no_tilde_outline_prompt by auto
next
  assume m: "mode \<noteq> JStr ''outline''"
  show "sublist ''Introduction (~200 words)'' (systemFor (JStr ''sermonCrafter'') mode)"
    unfolding systemFor_full[OF m] by (rule in_second_block[OF word_counts_in_ASSIGNMENT_FULL(1)])
  show "sublist ''Body (~1700 words)'' (systemFor (JStr ''sermonCrafter'') mode)"
    unfolding systemFor_full[OF m] by (rule in_second_block[OF word_counts_in_ASSIGNMENT_FULL(2)])
  show "sublist ''Conclusion (~200 words)'' (systemFor (JStr ''sermonCrafter'') mode)"
    unfolding systemFor_full[OF m] by (rule in_second_block[OF word_counts_in_ASSIGNMENT_FULL(3)])
  have "sublist ''STOP'' ''Then STOP and wait for explicit user approval. Do NOT write the full sermon.''"
    by (simp add: sublist_code)
  then show "\<not> sublist ''Then STOP and wait for explicit user approval. Do NOT write the full sermon.''
            (systemFor (JStr ''sermonCrafter'') mode)"
    unfolding systemFor_full[OF m]
  proof -
    assume s: "sublist ''STOP''
      ''Then STOP and wait for explicit user approval. Do NOT write the full sermon.''"
    show "\<not> sublist ''Then STOP and wait for explicit user approval. Do NOT write the full sermon.''
      (ROLE_sermonCrafter @ nl @ ASSIGNMENT_FULL @ nl @ GENERAL_GUIDELINES @ nl @ HUMAN_VOICE)"
    proof
      assume "sublist ''Then STOP and wait for explicit user approval. Do NOT write the full sermon.''
        (ROLE_sermonCrafter @ nl @ ASSIGNMENT_FULL @ nl @ GENERAL_GUIDELINES @ nl @ HUMAN_VOICE)"
      from no_STOP_full sublist_order.order_trans[OF s this] show False by (rule notE)
    qed
  qed
qed

theorem sermonCrafter_outline_or_full_witness:
  "JStr ''default'' \<noteq> JStr ''outline''
   \<and> sublist ''Body (~1700 words)'' (systemFor (JStr ''sermonCrafter'') (JStr ''default''))
   \<and> \<not> sublist ''Then STOP and wait for explicit user approval. Do NOT write the full sermon.''
            (systemFor (JStr ''sermonCrafter'') (JStr ''default''))"
  using sermonCrafter_outline_or_full[of "JStr ''default''"] by simp

subsection \<open>Unknown tasks\<close>

text \<open>
  Claim C3: the composer is total. \<^verbatim>\<open>systemFor\<close> compares its arguments with string
  literals and concatenates strings, so nothing in it can throw, and the model returns a
  prompt for every task and mode. For every task that is not one of the four known ones
  (the empty string among them) the result is the fallback prompt: the sentence of the
  generic assistant for pastoral ministry, then the general guidelines, then the voice
  guidelines.
\<close>

theorem unknown_task_gets_fallback:
  "task \<notin> {JStr ''sermonCrafter'', JStr ''sermonEnhancer'', JStr ''bibleStudyTool'',
            JStr ''biblicalApplications''} \<Longrightarrow>
     systemFor task mode =
       ''You are a helpful assistant for pastoral ministry. '' @ GENERAL_GUIDELINES @ '' '' @ HUMAN_VOICE
   \<and> sublist ''You are a helpful assistant for pastoral ministry.'' (systemFor task mode)
   \<and> sublist GENERAL_GUIDELINES (systemFor task mode)
   \<and> sublist HUMAN_VOICE (systemFor task mode)"
proof -
  assume u: "task \<notin> {JStr ''sermonCrafter'', JStr ''sermonEnhancer'', JStr ''bibleStudyTool'',
            JStr ''biblicalApplications''}"
  have a: "sublist ''You are a helpful assistant for pastoral ministry.''
            (''You are a helpful assistant for pastoral ministry.'' @ ('' '' @ GENERAL_GUIDELINES @ '' '' @ HUMAN_VOICE))"
    by (rule sublist_append_rightI)
  have b: "sublist GENERAL_GUIDELINES
            (''You are a helpful assistant for pastoral ministry. '' @ GENERAL_GUIDELINES @ '' '' @ HUMAN_VOICE)"
    by (rule sublist_appendI)
  have c: "sublist HUMAN_VOICE
            (''You are a helpful assistant for pastoral ministry. '' @ GENERAL_GUIDELINES @ '' '' @ HUMAN_VOICE)"
    by (intro sublist_in_right) simp
  from a b c show ?thesis unfolding systemFor_fallback[OF u] by simp
qed

theorem unknown_task_gets_fallback_witness:
  "JStr [] \<notin> {JStr ''sermonCrafter'', JStr ''sermonEnhancer'', JStr ''bibleStudyTool'',
            JStr ''biblicalApplications''}
   \<and> systemFor (JStr []) (JStr ''default'') =
       ''You are a helpful assistant for pastoral ministry. '' @ GENERAL_GUIDELINES @ '' '' @ HUMAN_VOICE
   \<and> sublist GENERAL_GUIDELINES (systemFor (JStr []) (JStr ''default''))"
proof -
  have h: "JStr [] \<notin> {JStr ''sermonCrafter'', JStr ''sermonEnhancer'', JStr ''bibleStudyTool'',
            JStr ''biblicalApplications''}"
    by simp
  from h unknown_task_gets_fallback[OF h, of "JStr ''default''"] show ?thesis by - (intro conjI, (elim conjE, assumption)+)
qed

subsection \<open>The guidelines are the same everywhere\<close>

text \<open>
  Claim C8: the general guidelines and the voice guidelines each occur, byte for byte, in
  the prompt of every task and mode.
\<close>

theorem guidelines_in_every_prompt:
  "sublist GENERAL_GUIDELINES (systemFor task mode) \<and> sublist HUMAN_VOICE (systemFor task mode)"
proof -
  have g: "sublist GENERAL_GUIDELINES (a @ GENERAL_GUIDELINES @ s @ HUMAN_VOICE)" for a s
    by (rule sublist_appendI)
  have h: "sublist HUMAN_VOICE (a @ GENERAL_GUIDELINES @ s @ HUMAN_VOICE)" for a s
    by (intro sublist_in_right) simp
  have layered: "sublist GENERAL_GUIDELINES (r @ nl @ a @ nl @ GENERAL_GUIDELINES @ nl @ HUMAN_VOICE)
      \<and> sublist HUMAN_VOICE (r @ nl @ a @ nl @ GENERAL_GUIDELINES @ nl @ HUMAN_VOICE)" for r a
    using g[of "r @ nl @ a @ nl" nl] h[of "r @ nl @ a @ nl" nl] by simp
  have "task = JStr ''sermonCrafter'' \<or> task = JStr ''sermonEnhancer''
      \<or> task = JStr ''bibleStudyTool'' \<or> task = JStr ''biblicalApplications''
      \<or> task \<notin> {JStr ''sermonCrafter'', JStr ''sermonEnhancer'', JStr ''bibleStudyTool'',
            JStr ''biblicalApplications''}"
    by (simp only: insert_iff empty_iff simp_thms de_Morgan_disj) (rule excluded_middle_chain)
  then consider "task = JStr ''sermonCrafter''" | "task = JStr ''sermonEnhancer''"
    | "task = JStr ''bibleStudyTool''" | "task = JStr ''biblicalApplications''"
    | "task \<notin> {JStr ''sermonCrafter'', JStr ''sermonEnhancer'', JStr ''bibleStudyTool'',
            JStr ''biblicalApplications''}"
    by (elim disjE)
  then show ?thesis
  proof cases
    case 1
    show ?thesis unfolding 1 systemFor_sermonCrafter by (rule layered)
  next
    case 2
    show ?thesis unfolding 2 systemFor_known by (rule layered)
  next
    case 3
    show ?thesis unfolding 3 systemFor_known by (rule layered)
  next
    case 4
    show ?thesis unfolding 4 systemFor_known by (rule layered)
  next
    case 5
    show ?thesis unfolding systemFor_fallback[OF 5] by (intro conjI g h)
  qed
qed

subsection \<open>The mode matters for one task only\<close>

text \<open>
  Claim C9: for every task other than \<^verbatim>\<open>sermonCrafter\<close> the prompt does not depend on the
  mode.
\<close>

theorem mode_ignored_outside_sermonCrafter:
  "task \<noteq> JStr ''sermonCrafter'' \<Longrightarrow> systemFor task m1 = systemFor task m2"
  by (simp add: systemFor_def)

theorem mode_ignored_outside_sermonCrafter_witness:
  "JStr ''sermonEnhancer'' \<noteq> JStr ''sermonCrafter''
   \<and> systemFor (JStr ''sermonEnhancer'') (JStr ''outline'')
       = systemFor (JStr ''sermonEnhancer'') (JStr ''default'')"
  using mode_ignored_outside_sermonCrafter[of "JStr ''sermonEnhancer''" "JStr ''outline''" "JStr ''default''"]
  by simp

section \<open>Properties of the generate route\<close>

subsection \<open>The operators\<close>

lemma andThen_simps:
  "andThen (Inr x) f = f x"
  "andThen (Inl e) f = Inl e"
  by (simp_all add: andThen_def)

lemma opt_simps:
  "opt JUndefined f = Inr JUndefined"
  "opt JNull f = Inr JUndefined"
  "opt (JBool b) f = f (JBool b)"
  "opt (JNum nz t) f = f (JNum nz t)"
  "opt (JStr s) f = f (JStr s)"
  "opt (JArr xs) f = f (JArr xs)"
  "opt (JObj kvs) f = f (JObj kvs)"
  by (simp_all add: opt_def nullish_def)

lemma coalesce_simps:
  "coalesce JUndefined b = b"
  "coalesce JNull b = b"
  "coalesce (JStr s) b = JStr s"
  by (simp_all add: coalesce_def nullish_def)

lemma nullish_simps:
  "nullish JUndefined" "nullish JNull" "\<not> nullish (JBool b)" "\<not> nullish (JNum nz t)"
  "\<not> nullish (JStr s)" "\<not> nullish (JArr xs)" "\<not> nullish (JObj kvs)"
  by (simp_all add: nullish_def)

lemmas js_simps = andThen_simps opt_simps coalesce_simps nullish_simps

subsection \<open>Destructuring never throws\<close>

text \<open>
  What is destructured is never \<^verbatim>\<open>undefined\<close> or \<^verbatim>\<open>null\<close>, so the four reads succeed: the
  hypothesis \<open>destructure body = Inr (provider, task, input, mode)\<close> of the theorems below
  names the four values and excludes no request. For an object they are its properties,
  with \<^verbatim>\<open>undefined\<close> for an absent one and the defaults for the provider and the mode.
\<close>

lemma body_or_empty_not_nullish: "\<not> nullish (body_or_empty body)"
  by (cases body) (simp_all add: body_or_empty_def nullish_def)

lemma get_prop_total: "\<not> nullish v \<Longrightarrow> \<exists>x. get_prop v k = Inr x"
  by (cases v) (simp_all add: nullish_def)

lemma destructure_never_throws: "\<exists>provider task input mode. destructure body = Inr (provider, task, input, mode)"
proof -
  let ?src = "body_or_empty body"
  from get_prop_total[OF body_or_empty_not_nullish] obtain p t i m where
    "get_prop ?src ''provider'' = Inr p" "get_prop ?src ''task'' = Inr t"
    "get_prop ?src ''input'' = Inr i" "get_prop ?src ''mode'' = Inr m"
    by metis
  then show ?thesis by (simp add: destructure_def Let_def andThen_simps)
qed

lemma destructure_object:
  "destructure (JObj kvs) =
     Inr (case map_of kvs ''provider'' of
            None \<Rightarrow> JStr ''chatgpt'' | Some v \<Rightarrow> default_to (JStr ''chatgpt'') v,
          case map_of kvs ''task'' of None \<Rightarrow> JUndefined | Some v \<Rightarrow> v,
          case map_of kvs ''input'' of None \<Rightarrow> JUndefined | Some v \<Rightarrow> v,
          case map_of kvs ''mode'' of
            None \<Rightarrow> JStr ''default'' | Some v \<Rightarrow> default_to (JStr ''default'') v)"
  by (simp add: destructure_def body_or_empty_def Let_def andThen_simps default_to_def
      split: option.splits)

lemma destructure_non_object:
  "\<not> is_object body \<Longrightarrow>
     destructure body = Inr (JStr ''chatgpt'', JUndefined, JUndefined, JStr ''default'')"
  by (cases body)
    (simp_all add: destructure_def body_or_empty_def Let_def andThen_simps default_to_def)

lemma generate_try_fields:
  assumes "destructure body = Inr (provider, task, input, mode)"
  shows "generate_try env fetch body =
          (if \<not> truthy task \<or> \<not> truthy input then
            (Inr (Reply 400 (Failed (Text ''task and input required''))), [])
          else if provider = JStr ''chatgpt'' then chatgpt env fetch (systemFor task mode) input
          else if provider = JStr ''gemini'' then gemini env fetch (systemFor task mode) input
          else if provider = JStr ''copilot'' then copilot env fetch (systemFor task mode) input
          else (Inr (Reply 400 (Failed (Text ''Unknown provider''))), []))"
  using assms by (simp add: generate_try_def Let_def)

lemmas handler_defs = generate_def generate_try_def destructure_def body_or_empty_def Let_def
  default_to_def present_def resp_ok_def andThen_simps

subsection \<open>A dispatch that calls the vendor\<close>

text \<open>
  A valid request whose provider is ready makes exactly one call of \<^verbatim>\<open>fetch\<close>, and the
  reply is made from what \<^verbatim>\<open>fetch\<close> answers to it.
\<close>

lemma generate_of_try:
  "generate_try env fetch body = (res, calls) \<Longrightarrow>
     generate env fetch body =
       (case res of Inl e \<Rightarrow> Reply 500 (Failed (message e)) | Inr rep \<Rightarrow> rep, calls)"
  by (simp add: generate_def split: sum.splits)

lemma generate_calls_vendor:
  assumes d: "destructure body = Inr (provider, task, input, mode)"
    and t: "truthy task" "truthy input"
    and r: "ready env provider input"
  shows "\<exists>req. generate_try env fetch body =
           (andThen (fetch req) (\<lambda>r.
              if \<not> resp_ok r then
                andThen (resp_text r) (\<lambda>t. Inr (Reply 500 (Failed (Text t))))
              else
                andThen (resp_json r) (\<lambda>data.
                andThen ((if provider = JStr ''gemini'' then candidate_text else chat_content) data)
                  (\<lambda>out. Inr (Reply 200 (Output out))))),
            [req])"
proof -
  from r consider
      (c) key where "provider = JStr ''chatgpt''" "present (env ''OPENAI_API_KEY'') = Some key"
    | (g) key s where "provider = JStr ''gemini''" "present (env ''GOOGLE_API_KEY'') = Some key"
        "toStr input = Inr s"
    | (a) key ep dep where "provider = JStr ''copilot''"
        "present (env ''AZURE_OPENAI_KEY'') = Some key"
        "present (env ''AZURE_OPENAI_ENDPOINT'') = Some ep"
        "present (env ''AZURE_OPENAI_DEPLOYMENT'') = Some dep"
    by (auto simp: ready_def split: sum.splits)
  then show ?thesis
  proof cases
    case c
    with t show ?thesis
      by (simp add: generate_try_fields[OF d] chatgpt_def Let_def)
  next
    case g
    with t show ?thesis
      by (simp add: generate_try_fields[OF d] gemini_def Let_def)
  next
    case a
    with t show ?thesis
      by (simp add: generate_try_fields[OF d] copilot_def Let_def)
  qed
qed

subsection \<open>Answers without text\<close>

lemma message_without_content_chain:
  assumes "message_without_content m"
  shows "andThen (opt m (\<lambda>v. get_prop v ''content'')) (\<lambda>content.
         Inr (coalesce content (JStr []))) = Inr (JStr [])"
  using assms
  by (cases m) (auto simp: js_simps coalesce_def split: option.splits)

lemma choice_without_text_chain:
  assumes "choice_without_text c"
  shows "andThen (opt c (\<lambda>v. get_prop v ''message'')) (\<lambda>m.
         andThen (opt m (\<lambda>v. get_prop v ''content'')) (\<lambda>content.
         Inr (coalesce content (JStr [])))) = Inr (JStr [])"
proof (cases c)
  case (JObj kvs)
  show ?thesis
  proof (cases "map_of kvs ''message''")
    case None
    with JObj show ?thesis by (simp add: js_simps)
  next
    case (Some m)
    with JObj assms have "message_without_content m" by simp
    from message_without_content_chain[OF this] JObj Some show ?thesis
      by (simp add: js_simps)
  qed
qed (use assms in \<open>simp_all add: js_simps\<close>)

lemma chat_content_empty:
  assumes "no_chat_text data"
  shows "chat_content data = Inr (JStr [])"
proof (cases data)
  case (JObj d)
  show ?thesis
  proof (cases "map_of d ''choices''")
    case None
    with JObj show ?thesis by (simp add: chat_content_def js_simps)
  next
    case (Some cs)
    with JObj assms have cs: "choices_without_text cs" by simp
    show ?thesis
    proof (cases cs rule: choices_without_text.cases)
      case (4 c rest)
      with cs have "choice_without_text c" by simp
      from choice_without_text_chain[OF this] 4 JObj Some show ?thesis
        by (simp add: chat_content_def js_simps)
    qed (use cs JObj Some in \<open>simp_all add: chat_content_def js_simps\<close>)
  qed
qed (use assms in simp_all)

lemma texts_of_absent:
  "list_all part_without_text ps \<Longrightarrow> \<exists>ts. texts_of ps = Inr ts \<and> list_all nullish ts"
proof (induction ps)
  case Nil
  then show ?case by simp
next
  case (Cons p ps)
  then obtain ts where ts: "texts_of ps = Inr ts" "list_all nullish ts" by auto
  from Cons.prems obtain kvs where p: "p = JObj kvs"
    "case map_of kvs ''text'' of None \<Rightarrow> True | Some v \<Rightarrow> nullish v"
    by (cases p) simp_all
  then show ?case using ts
    by (auto simp: js_simps split: option.splits)
qed

lemma join_values_nullish: "list_all nullish ts \<Longrightarrow> join_values [] ts = Inr []"
  by (induction ts) (simp_all add: js_simps)

lemma parts_without_text_chain:
  assumes "parts_without_text parts"
  shows "(if nullish parts then Inr (coalesce JUndefined (JStr []))
     else (case parts of
             JArr ps \<Rightarrow>
               andThen (texts_of ps) (\<lambda>ts.
               andThen (join_values [] ts) (\<lambda>s. Inr (coalesce (JStr s) (JStr []))))
           | _ \<Rightarrow> Inl TypeError)) = Inr (JStr [])"
proof (cases parts)
  case (JArr ps)
  with assms have "list_all part_without_text ps" by simp
  from texts_of_absent[OF this] obtain ts where "texts_of ps = Inr ts" "list_all nullish ts"
    by auto
  with join_values_nullish[of ts] JArr show ?thesis by (simp add: js_simps)
qed (use assms in \<open>simp_all add: js_simps\<close>)

lemma content_without_text_chain:
  assumes "content_without_text co"
  shows "andThen (opt co (\<lambda>v. get_prop v ''parts'')) (\<lambda>parts.
     if nullish parts then Inr (coalesce JUndefined (JStr []))
     else (case parts of
             JArr ps \<Rightarrow>
               andThen (texts_of ps) (\<lambda>ts.
               andThen (join_values [] ts) (\<lambda>s. Inr (coalesce (JStr s) (JStr []))))
           | _ \<Rightarrow> Inl TypeError)) = Inr (JStr [])"
proof (cases co)
  case (JObj kvs)
  show ?thesis
  proof (cases "map_of kvs ''parts''")
    case None
    with JObj show ?thesis by (simp add: js_simps)
  next
    case (Some parts)
    with JObj assms have "parts_without_text parts" by simp
    from parts_without_text_chain[OF this] JObj Some show ?thesis
      by (simp add: js_simps)
  qed
qed (use assms in \<open>simp_all add: js_simps\<close>)

lemma candidate_without_text_chain:
  assumes "candidate_without_text c"
  shows "andThen (opt c (\<lambda>v. get_prop v ''content'')) (\<lambda>content.
     andThen (opt content (\<lambda>v. get_prop v ''parts'')) (\<lambda>parts.
     if nullish parts then Inr (coalesce JUndefined (JStr []))
     else (case parts of
             JArr ps \<Rightarrow>
               andThen (texts_of ps) (\<lambda>ts.
               andThen (join_values [] ts) (\<lambda>s. Inr (coalesce (JStr s) (JStr []))))
           | _ \<Rightarrow> Inl TypeError))) = Inr (JStr [])"
proof (cases c)
  case (JObj kvs)
  show ?thesis
  proof (cases "map_of kvs ''content''")
    case None
    with JObj show ?thesis by (simp add: js_simps)
  next
    case (Some co)
    with JObj assms have "content_without_text co" by simp
    from content_without_text_chain[OF this] JObj Some show ?thesis
      by (simp add: js_simps)
  qed
qed (use assms in \<open>simp_all add: js_simps\<close>)

lemma candidate_text_empty:
  assumes "no_candidate_text data"
  shows "candidate_text data = Inr (JStr [])"
proof (cases data)
  case (JObj d)
  show ?thesis
  proof (cases "map_of d ''candidates''")
    case None
    with JObj show ?thesis by (simp add: candidate_text_def js_simps)
  next
    case (Some cs)
    with JObj assms have cs: "candidates_without_text cs" by simp
    show ?thesis
    proof (cases cs rule: candidates_without_text.cases)
      case (4 c rest)
      with cs have "candidate_without_text c" by simp
      from candidate_without_text_chain[OF this] 4 JObj Some show ?thesis
        by (simp add: candidate_text_def js_simps)
    qed (use cs JObj Some in \<open>simp_all add: candidate_text_def js_simps\<close>)
  qed
qed (use assms in simp_all)

lemma extract_empty:
  "no_text provider data \<Longrightarrow>
     (if provider = JStr ''gemini'' then candidate_text else chat_content) data = Inr (JStr [])"
  by (simp add: no_text_def chat_content_empty candidate_text_empty split: if_splits)

lemma extract_null:
  "(if provider = JStr ''gemini'' then candidate_text else chat_content) JNull = Inl TypeError"
  by (simp add: chat_content_def candidate_text_def js_simps)

subsection \<open>Rejected requests\<close>

text \<open>
  Claim C4: when \<^verbatim>\<open>task\<close> or \<^verbatim>\<open>input\<close> is missing (\<^verbatim>\<open>undefined\<close>) or the empty string, the
  reply is the client error 400 with the text \<^verbatim>\<open>task and input required\<close>, and \<^verbatim>\<open>fetch\<close> is
  not called. When the provider is given and is none of \<^verbatim>\<open>chatgpt\<close>, \<^verbatim>\<open>gemini\<close>, \<^verbatim>\<open>copilot\<close>
  (an absent provider is \<^verbatim>\<open>chatgpt\<close> by default), the reply is a client error 400, one of
  the two the handler has, and \<^verbatim>\<open>fetch\<close> is not called.
\<close>

theorem bad_request_rejected:
  assumes "destructure body = Inr (provider, task, input, mode)"
  shows "(task \<in> {JUndefined, JStr []} \<or> input \<in> {JUndefined, JStr []} \<longrightarrow>
            generate env fetch body = (Reply 400 (Failed (Text ''task and input required'')), []))
       \<and> (provider \<notin> {JStr ''chatgpt'', JStr ''gemini'', JStr ''copilot''} \<longrightarrow>
            generate env fetch body \<in>
              {(Reply 400 (Failed (Text ''task and input required'')), []),
               (Reply 400 (Failed (Text ''Unknown provider'')), [])})"
proof (intro conjI impI)
  assume "task \<in> {JUndefined, JStr []} \<or> input \<in> {JUndefined, JStr []}"
  then have "\<not> truthy task \<or> \<not> truthy input" by auto
  then show "generate env fetch body = (Reply 400 (Failed (Text ''task and input required'')), [])"
    by (simp add: generate_def generate_try_fields[OF assms])
next
  assume "provider \<notin> {JStr ''chatgpt'', JStr ''gemini'', JStr ''copilot''}"
  then have p: "provider \<noteq> JStr ''chatgpt''" "provider \<noteq> JStr ''gemini''"
    "provider \<noteq> JStr ''copilot''"
    by simp_all
  show "generate env fetch body \<in>
              {(Reply 400 (Failed (Text ''task and input required'')), []),
               (Reply 400 (Failed (Text ''Unknown provider'')), [])}"
    by (simp add: generate_def generate_try_fields[OF assms] p)
qed

theorem bad_request_rejected_witness:
  "generate Map.empty (\<lambda>q. Inl (Thrown ''offline''))
      (JObj [(''task'', JStr []), (''input'', JStr ''x'')])
     = (Reply 400 (Failed (Text ''task and input required'')), [])
   \<and> generate Map.empty (\<lambda>q. Inl (Thrown ''offline''))
      (JObj [(''task'', JStr ''x''), (''input'', JStr [])])
     = (Reply 400 (Failed (Text ''task and input required'')), [])
   \<and> JStr ''claude'' \<notin> {JStr ''chatgpt'', JStr ''gemini'', JStr ''copilot''}
   \<and> generate Map.empty (\<lambda>q. Inl (Thrown ''offline''))
      (JObj [(''provider'', JStr ''claude''), (''task'', JStr ''x''), (''input'', JStr ''y'')])
     \<in> {(Reply 400 (Failed (Text ''task and input required'')), []),
         (Reply 400 (Failed (Text ''Unknown provider'')), [])}"
proof -
  have d1: "destructure (JObj [(''task'', JStr []), (''input'', JStr ''x'')])
      = Inr (JStr ''chatgpt'', JStr [], JStr ''x'', JStr ''default'')"
    by (simp add: handler_defs)
  have d2: "destructure (JObj [(''task'', JStr ''x''), (''input'', JStr [])])
      = Inr (JStr ''chatgpt'', JStr ''x'', JStr [], JStr ''default'')"
    by (simp add: handler_defs)
  have d3: "destructure
      (JObj [(''provider'', JStr ''claude''), (''task'', JStr ''x''), (''input'', JStr ''y'')])
      = Inr (JStr ''claude'', JStr ''x'', JStr ''y'', JStr ''default'')"
    by (simp add: handler_defs)
  have p: "JStr ''claude'' \<notin> {JStr ''chatgpt'', JStr ''gemini'', JStr ''copilot''}"
    by simp
  from bad_request_rejected[OF d1, of Map.empty "\<lambda>q. Inl (Thrown ''offline'')"]
    bad_request_rejected[OF d2, of Map.empty "\<lambda>q. Inl (Thrown ''offline'')"]
    bad_request_rejected[OF d3, of Map.empty "\<lambda>q. Inl (Thrown ''offline'')"] p
  show ?thesis by simp
qed

subsection \<open>Missing credentials\<close>

text \<open>
  Claim C5: for a valid request (truthy \<^verbatim>\<open>task\<close> and \<^verbatim>\<open>input\<close>) whose provider lacks one of
  its environment variables (unset, or set to the empty string), the reply is the status
  500 with the text of the exception thrown for that provider, which is not the status 400
  of a client error, and \<^verbatim>\<open>fetch\<close> is not called.
\<close>

theorem missing_credentials_fail_before_fetch:
  assumes "destructure body = Inr (provider, task, input, mode)"
    and "truthy task" and "truthy input"
  shows "(provider = JStr ''chatgpt'' \<and> present (env ''OPENAI_API_KEY'') = None \<longrightarrow>
            generate env fetch body = (Reply 500 (Failed (Text ''OPENAI_API_KEY missing'')), []))
       \<and> (provider = JStr ''gemini'' \<and> present (env ''GOOGLE_API_KEY'') = None \<longrightarrow>
            generate env fetch body = (Reply 500 (Failed (Text ''GOOGLE_API_KEY missing'')), []))
       \<and> (provider = JStr ''copilot''
            \<and> (present (env ''AZURE_OPENAI_KEY'') = None
               \<or> present (env ''AZURE_OPENAI_ENDPOINT'') = None
               \<or> present (env ''AZURE_OPENAI_DEPLOYMENT'') = None) \<longrightarrow>
            generate env fetch body = (Reply 500 (Failed (Text ''Azure OpenAI env missing'')), []))"
proof (intro conjI impI)
  assume "provider = JStr ''chatgpt'' \<and> present (env ''OPENAI_API_KEY'') = None"
  then show "generate env fetch body = (Reply 500 (Failed (Text ''OPENAI_API_KEY missing'')), [])"
    using assms(2,3) by (simp add: generate_def generate_try_fields[OF assms(1)] chatgpt_def)
next
  assume "provider = JStr ''gemini'' \<and> present (env ''GOOGLE_API_KEY'') = None"
  then show "generate env fetch body = (Reply 500 (Failed (Text ''GOOGLE_API_KEY missing'')), [])"
    using assms(2,3) by (simp add: generate_def generate_try_fields[OF assms(1)] gemini_def)
next
  assume a: "provider = JStr ''copilot''
            \<and> (present (env ''AZURE_OPENAI_KEY'') = None
               \<or> present (env ''AZURE_OPENAI_ENDPOINT'') = None
               \<or> present (env ''AZURE_OPENAI_DEPLOYMENT'') = None)"
  then have "copilot env fetch (systemFor task mode) input
      = (Inl (Thrown ''Azure OpenAI env missing''), [])"
    by (auto simp: copilot_def split: option.splits)
  with a show "generate env fetch body = (Reply 500 (Failed (Text ''Azure OpenAI env missing'')), [])"
    using assms(2,3) by (simp add: generate_def generate_try_fields[OF assms(1)])
qed

theorem missing_credentials_fail_before_fetch_witness:
  "present (Map.empty ''OPENAI_API_KEY'') = None
   \<and> generate Map.empty (\<lambda>q. Inl (Thrown ''offline''))
        (JObj [(''provider'', JStr ''chatgpt''), (''task'', JStr ''biblicalApplications''),
               (''input'', JStr ''Joseph'')])
      = (Reply 500 (Failed (Text ''OPENAI_API_KEY missing'')), [])
   \<and> generate [''OPENAI_API_KEY'' \<mapsto> ''sk-1'', ''GOOGLE_API_KEY'' \<mapsto> []]
        (\<lambda>q. Inl (Thrown ''offline''))
        (JObj [(''provider'', JStr ''gemini''), (''task'', JStr ''biblicalApplications''),
               (''input'', JStr ''Joseph'')])
      = (Reply 500 (Failed (Text ''GOOGLE_API_KEY missing'')), [])
   \<and> generate [''AZURE_OPENAI_KEY'' \<mapsto> ''k'', ''AZURE_OPENAI_ENDPOINT'' \<mapsto> ''https://e.example'']
        (\<lambda>q. Inl (Thrown ''offline''))
        (JObj [(''provider'', JStr ''copilot''), (''task'', JStr ''biblicalApplications''),
               (''input'', JStr ''Joseph'')])
      = (Reply 500 (Failed (Text ''Azure OpenAI env missing'')), [])"
proof -
  have d: "destructure (JObj [(''provider'', JStr p), (''task'', JStr ''biblicalApplications''),
               (''input'', JStr ''Joseph'')])
      = Inr (JStr p, JStr ''biblicalApplications'', JStr ''Joseph'', JStr ''default'')" for p
    by (simp add: handler_defs)
  have t: "truthy (JStr ''biblicalApplications'')" "truthy (JStr ''Joseph'')"
    by simp_all
  have e1: "present (Map.empty ''OPENAI_API_KEY'') = None"
    by (simp add: present_def)
  have e2: "present ([''OPENAI_API_KEY'' \<mapsto> ''sk-1'', ''GOOGLE_API_KEY'' \<mapsto> []] ''GOOGLE_API_KEY'') = None"
    by (simp add: present_def)
  have e3: "present ([''AZURE_OPENAI_KEY'' \<mapsto> ''k'', ''AZURE_OPENAI_ENDPOINT'' \<mapsto> ''https://e.example'']
      ''AZURE_OPENAI_DEPLOYMENT'') = None"
    by (simp add: present_def)
  from missing_credentials_fail_before_fetch[OF d t, of "''chatgpt''" Map.empty
      "\<lambda>q. Inl (Thrown ''offline'')"]
    missing_credentials_fail_before_fetch[OF d t, of "''gemini''"
      "[''OPENAI_API_KEY'' \<mapsto> ''sk-1'', ''GOOGLE_API_KEY'' \<mapsto> []]" "\<lambda>q. Inl (Thrown ''offline'')"]
    missing_credentials_fail_before_fetch[OF d t, of "''copilot''"
      "[''AZURE_OPENAI_KEY'' \<mapsto> ''k'', ''AZURE_OPENAI_ENDPOINT'' \<mapsto> ''https://e.example'']"
      "\<lambda>q. Inl (Thrown ''offline'')"]
    e1 e2 e3
  show ?thesis by simp
qed

subsection \<open>Errors of the vendor\<close>

text \<open>
  Claim C6: for a valid request whose provider is ready, when the vendor answers with a
  status outside 200 to 299 and the body \<open>b\<close>, the handler makes one call and replies with
  the status 500 and the error text \<open>b\<close>, unchanged. This holds for each of the three
  providers; the witness is the vendor that answers 500 with the body \<^verbatim>\<open>rate limited\<close>.
\<close>

theorem upstream_error_verbatim:
  assumes "destructure body = Inr (provider, task, input, mode)"
    and "truthy task" and "truthy input"
    and "ready env provider input"
    and "\<forall>q. \<exists>r. fetch q = Inr r \<and> \<not> resp_ok r \<and> resp_text r = Inr b"
  shows "\<exists>req. generate env fetch body = (Reply 500 (Failed (Text b)), [req])"
proof -
  from generate_calls_vendor[OF assms(1-4), of fetch] obtain req where
    t: "generate_try env fetch body =
           (andThen (fetch req) (\<lambda>r.
              if \<not> resp_ok r then
                andThen (resp_text r) (\<lambda>t. Inr (Reply 500 (Failed (Text t))))
              else
                andThen (resp_json r) (\<lambda>data.
                andThen ((if provider = JStr ''gemini'' then candidate_text else chat_content) data)
                  (\<lambda>out. Inr (Reply 200 (Output out))))),
            [req])"
    by (elim exE)
  from assms(5) obtain r where r: "fetch req = Inr r" "\<not> resp_ok r" "resp_text r = Inr b"
    by (elim allE[of _ req] exE conjE)
  from generate_of_try[OF t] r
  have "generate env fetch body = (Reply 500 (Failed (Text b)), [req])"
    by (simp add: andThen_simps)
  then show ?thesis by (rule exI)
qed

theorem upstream_error_verbatim_witness:
  "\<not> resp_ok \<lparr>resp_status = 500, resp_text = Inr ''rate limited'',
                resp_json = Inl (Thrown ''Unexpected token r in JSON'')\<rparr>
   \<and> ready [''OPENAI_API_KEY'' \<mapsto> ''sk-1''] (JStr ''chatgpt'') (JStr ''Joseph'')
   \<and> (\<exists>req. generate [''OPENAI_API_KEY'' \<mapsto> ''sk-1'']
        (\<lambda>q. Inr \<lparr>resp_status = 500, resp_text = Inr ''rate limited'',
                    resp_json = Inl (Thrown ''Unexpected token r in JSON'')\<rparr>)
        (JObj [(''task'', JStr ''biblicalApplications''), (''input'', JStr ''Joseph'')])
      = (Reply 500 (Failed (Text ''rate limited'')), [req]))
   \<and> ready [''GOOGLE_API_KEY'' \<mapsto> ''g-1''] (JStr ''gemini'') (JStr ''Joseph'')
   \<and> (\<exists>req. generate [''GOOGLE_API_KEY'' \<mapsto> ''g-1'']
        (\<lambda>q. Inr \<lparr>resp_status = 500, resp_text = Inr ''rate limited'',
                    resp_json = Inl (Thrown ''Unexpected token r in JSON'')\<rparr>)
        (JObj [(''provider'', JStr ''gemini''), (''task'', JStr ''biblicalApplications''),
               (''input'', JStr ''Joseph'')])
      = (Reply 500 (Failed (Text ''rate limited'')), [req]))
   \<and> ready [''AZURE_OPENAI_KEY'' \<mapsto> ''k'', ''AZURE_OPENAI_ENDPOINT'' \<mapsto> ''https://e.example'',
             ''AZURE_OPENAI_DEPLOYMENT'' \<mapsto> ''d1'']
        (JStr ''copilot'') (JStr ''Joseph'')
   \<and> (\<exists>req. generate
        [''AZURE_OPENAI_KEY'' \<mapsto> ''k'', ''AZURE_OPENAI_ENDPOINT'' \<mapsto> ''https://e.example'',
         ''AZURE_OPENAI_DEPLOYMENT'' \<mapsto> ''d1'']
        (\<lambda>q. Inr \<lparr>resp_status = 500, resp_text = Inr ''rate limited'',
                    resp_json = Inl (Thrown ''Unexpected token r in JSON'')\<rparr>)
        (JObj [(''provider'', JStr ''copilot''), (''task'', JStr ''biblicalApplications''),
               (''input'', JStr ''Joseph'')])
      = (Reply 500 (Failed (Text ''rate limited'')), [req]))
   \<and> map req_url (snd (generate
        [''AZURE_OPENAI_KEY'' \<mapsto> ''k'', ''AZURE_OPENAI_ENDPOINT'' \<mapsto> ''https://e.example'',
         ''AZURE_OPENAI_DEPLOYMENT'' \<mapsto> ''d1'']
        (\<lambda>q. Inr \<lparr>resp_status = 500, resp_text = Inr ''rate limited'',
                    resp_json = Inl (Thrown ''Unexpected token r in JSON'')\<rparr>)
        (JObj [(''provider'', JStr ''copilot''), (''task'', JStr ''biblicalApplications''),
               (''input'', JStr ''Joseph'')])))
      = [''https://e.example/openai/deployments/d1/chat/completions?api-version=2024-06-01'']"
proof -
  let ?r = "\<lparr>resp_status = 500, resp_text = Inr ''rate limited'',
                resp_json = Inl (Thrown ''Unexpected token r in JSON'')\<rparr>"
  let ?fetch = "\<lambda>q::request. (Inr ?r :: fault + response)"
  let ?aenv = "[''AZURE_OPENAI_KEY'' \<mapsto> ''k'', ''AZURE_OPENAI_ENDPOINT'' \<mapsto> ''https://e.example'',
         ''AZURE_OPENAI_DEPLOYMENT'' \<mapsto> ''d1'']"
  have d0: "destructure (JObj [(''task'', JStr ''biblicalApplications''), (''input'', JStr ''Joseph'')])
      = Inr (JStr ''chatgpt'', JStr ''biblicalApplications'', JStr ''Joseph'', JStr ''default'')"
    by (simp add: handler_defs)
  have d: "destructure (JObj [(''provider'', JStr p), (''task'', JStr ''biblicalApplications''),
               (''input'', JStr ''Joseph'')])
      = Inr (JStr p, JStr ''biblicalApplications'', JStr ''Joseph'', JStr ''default'')" for p
    by (simp add: handler_defs)
  have t: "truthy (JStr ''biblicalApplications'')" "truthy (JStr ''Joseph'')"
    by simp_all
  have nok: "\<not> resp_ok ?r" by (simp add: resp_ok_def)
  have f: "\<forall>q. \<exists>r. ?fetch q = Inr r \<and> \<not> resp_ok r \<and> resp_text r = Inr ''rate limited''"
    by (simp add: resp_ok_def)
  have r1: "ready [''OPENAI_API_KEY'' \<mapsto> ''sk-1''] (JStr ''chatgpt'') (JStr ''Joseph'')"
    by (simp add: ready_def present_def)
  have r2: "ready [''GOOGLE_API_KEY'' \<mapsto> ''g-1''] (JStr ''gemini'') (JStr ''Joseph'')"
    by (simp add: ready_def present_def)
  have r3: "ready ?aenv (JStr ''copilot'') (JStr ''Joseph'')"
    by (simp add: ready_def present_def)
  have url: "map req_url (snd (generate ?aenv ?fetch
        (JObj [(''provider'', JStr ''copilot''), (''task'', JStr ''biblicalApplications''),
               (''input'', JStr ''Joseph'')])))
      = [''https://e.example/openai/deployments/d1/chat/completions?api-version=2024-06-01'']"
    by (simp add: handler_defs copilot_def)
  from upstream_error_verbatim[OF d0 t r1 f] upstream_error_verbatim[OF d t r2 f]
    upstream_error_verbatim[OF d t r3 f] nok r1 r2 r3 url
  show ?thesis by (intro conjI)
qed

subsection \<open>Answers without generated text\<close>

text \<open>
  Claim C7 says that every successful answer whose generated text is absent, or whose
  array of choices or candidates is empty, gives the success \<^verbatim>\<open>{ ok:true, output:"" }\<close>. It
  fails where the text is absent because the answer has another shape: the first step of
  each chain (\<^verbatim>\<open>data.choices\<close>, \<^verbatim>\<open>data.candidates\<close>) and the call of \<^verbatim>\<open>map\<close> are not
  guarded. The success body \<^verbatim>\<open>null\<close>, and the Gemini answer whose \<^verbatim>\<open>parts\<close> is an object
  and not an array, end in a \<^verbatim>\<open>TypeError\<close>, and the \<^verbatim>\<open>catch\<close> replies with the status 500.
\<close>

theorem null_answer_is_internal_error:
  "fst (generate [''OPENAI_API_KEY'' \<mapsto> ''sk-1'']
        (\<lambda>q. Inr \<lparr>resp_status = 200, resp_text = Inr ''null'', resp_json = Inr JNull\<rparr>)
        (JObj [(''task'', JStr ''biblicalApplications''), (''input'', JStr ''Joseph'')]))
     = Reply 500 (Failed EngineText)
   \<and> fst (generate [''GOOGLE_API_KEY'' \<mapsto> ''g-1'']
        (\<lambda>q. Inr \<lparr>resp_status = 200,
                    resp_text = Inr (''{'' @ [CHR 0x22] @ ''candidates'' @ [CHR 0x22] @ '':[{''
                      @ [CHR 0x22] @ ''content'' @ [CHR 0x22] @ '':{'' @ [CHR 0x22] @ ''parts''
                      @ [CHR 0x22] @ '':{}}}]}''),
                    resp_json = Inr (JObj [(''candidates'',
                      JArr [JObj [(''content'', JObj [(''parts'', JObj [])])]])])\<rparr>)
        (JObj [(''provider'', JStr ''gemini''), (''task'', JStr ''biblicalApplications''),
               (''input'', JStr ''Joseph'')]))
     = Reply 500 (Failed EngineText)"
  by (simp add: handler_defs chatgpt_def gemini_def chat_content_def candidate_text_def js_simps)

text \<open>
  Claim C7, amended: for a valid request whose provider is ready, when the vendor answers
  with a success status and a body that is an object in which the path to the generated
  text ends at an absent or \<^verbatim>\<open>null\<close> property or at an empty array of choices or
  candidates (for Gemini also at an array of parts none of which has a text), the handler
  makes one call and replies with the success \<^verbatim>\<open>{ ok:true, output:"" }\<close>: the output is the
  empty string, never \<^verbatim>\<open>null\<close>. When the body is \<^verbatim>\<open>null\<close> the reply is the status 500 with
  the message of the \<^verbatim>\<open>TypeError\<close>.
\<close>

theorem answer_without_text_gives_empty_output:
  assumes "destructure body = Inr (provider, task, input, mode)"
    and "truthy task" and "truthy input"
    and "ready env provider input"
    and "\<forall>q. \<exists>r. fetch q = Inr r \<and> resp_ok r \<and> resp_json r = Inr data"
  shows "(no_text provider data \<longrightarrow>
            (\<exists>req. generate env fetch body = (Reply 200 (Output (JStr [])), [req])))
       \<and> (data = JNull \<longrightarrow>
            (\<exists>req. generate env fetch body = (Reply 500 (Failed EngineText), [req])))"
proof -
  from generate_calls_vendor[OF assms(1-4), of fetch] obtain req where
    t: "generate_try env fetch body =
           (andThen (fetch req) (\<lambda>r.
              if \<not> resp_ok r then
                andThen (resp_text r) (\<lambda>t. Inr (Reply 500 (Failed (Text t))))
              else
                andThen (resp_json r) (\<lambda>data.
                andThen ((if provider = JStr ''gemini'' then candidate_text else chat_content) data)
                  (\<lambda>out. Inr (Reply 200 (Output out))))),
            [req])"
    by (elim exE)
  from assms(5) obtain r where r: "fetch req = Inr r" "resp_ok r" "resp_json r = Inr data"
    by (elim allE[of _ req] exE conjE)
  show ?thesis
  proof (intro conjI impI)
    assume "no_text provider data"
    from generate_of_try[OF t] r extract_empty[OF this]
    have "generate env fetch body = (Reply 200 (Output (JStr [])), [req])"
      by (simp add: andThen_simps)
    then show "\<exists>req. generate env fetch body = (Reply 200 (Output (JStr [])), [req])"
      by (rule exI)
  next
    assume "data = JNull"
    with generate_of_try[OF t] r extract_null[of provider]
    have "generate env fetch body = (Reply 500 (Failed EngineText), [req])"
      by (simp add: andThen_simps)
    then show "\<exists>req. generate env fetch body = (Reply 500 (Failed EngineText), [req])"
      by (rule exI)
  qed
qed

theorem answer_without_text_gives_empty_output_witness:
  "no_text (JStr ''chatgpt'') (JObj [(''choices'', JArr [])])
   \<and> (\<exists>req. generate [''OPENAI_API_KEY'' \<mapsto> ''sk-1'']
        (\<lambda>q. Inr \<lparr>resp_status = 200,
                    resp_text = Inr (''{'' @ [CHR 0x22] @ ''choices'' @ [CHR 0x22] @ '':[]}''),
                    resp_json = Inr (JObj [(''choices'', JArr [])])\<rparr>)
        (JObj [(''task'', JStr ''biblicalApplications''), (''input'', JStr ''Joseph'')])
      = (Reply 200 (Output (JStr [])), [req]))
   \<and> no_text (JStr ''gemini'') (JObj [(''candidates'', JArr [])])
   \<and> (\<exists>req. generate [''GOOGLE_API_KEY'' \<mapsto> ''g-1'']
        (\<lambda>q. Inr \<lparr>resp_status = 200,
                    resp_text = Inr (''{'' @ [CHR 0x22] @ ''candidates'' @ [CHR 0x22] @ '':[]}''),
                    resp_json = Inr (JObj [(''candidates'', JArr [])])\<rparr>)
        (JObj [(''provider'', JStr ''gemini''), (''task'', JStr ''biblicalApplications''),
               (''input'', JStr ''Joseph'')])
      = (Reply 200 (Output (JStr [])), [req]))
   \<and> no_text (JStr ''copilot'')
        (JObj [(''choices'', JArr [JObj [(''message'', JObj [(''content'', JNull)])]])])
   \<and> (\<exists>req. generate
        [''AZURE_OPENAI_KEY'' \<mapsto> ''k'', ''AZURE_OPENAI_ENDPOINT'' \<mapsto> ''https://e.example'',
         ''AZURE_OPENAI_DEPLOYMENT'' \<mapsto> ''d1'']
        (\<lambda>q. Inr \<lparr>resp_status = 200,
                    resp_text = Inr (''{'' @ [CHR 0x22] @ ''choices'' @ [CHR 0x22] @ '':[{''
                      @ [CHR 0x22] @ ''message'' @ [CHR 0x22] @ '':{'' @ [CHR 0x22] @ ''content''
                      @ [CHR 0x22] @ '':null}}]}''),
                    resp_json = Inr (JObj [(''choices'',
                      JArr [JObj [(''message'', JObj [(''content'', JNull)])]])])\<rparr>)
        (JObj [(''provider'', JStr ''copilot''), (''task'', JStr ''biblicalApplications''),
               (''input'', JStr ''Joseph'')])
      = (Reply 200 (Output (JStr [])), [req]))
   \<and> (\<exists>req. generate [''OPENAI_API_KEY'' \<mapsto> ''sk-1'']
        (\<lambda>q. Inr \<lparr>resp_status = 200, resp_text = Inr ''null'', resp_json = Inr JNull\<rparr>)
        (JObj [(''task'', JStr ''biblicalApplications''), (''input'', JStr ''Joseph'')])
      = (Reply 500 (Failed EngineText), [req]))"
proof -
  let ?aenv = "[''AZURE_OPENAI_KEY'' \<mapsto> ''k'', ''AZURE_OPENAI_ENDPOINT'' \<mapsto> ''https://e.example'',
         ''AZURE_OPENAI_DEPLOYMENT'' \<mapsto> ''d1'']"
  have d0: "destructure (JObj [(''task'', JStr ''biblicalApplications''), (''input'', JStr ''Joseph'')])
      = Inr (JStr ''chatgpt'', JStr ''biblicalApplications'', JStr ''Joseph'', JStr ''default'')"
    by (simp add: handler_defs)
  have d: "destructure (JObj [(''provider'', JStr p), (''task'', JStr ''biblicalApplications''),
               (''input'', JStr ''Joseph'')])
      = Inr (JStr p, JStr ''biblicalApplications'', JStr ''Joseph'', JStr ''default'')" for p
    by (simp add: handler_defs)
  have t: "truthy (JStr ''biblicalApplications'')" "truthy (JStr ''Joseph'')"
    by simp_all
  have f: "\<forall>q. \<exists>r. (\<lambda>q::request. (Inr \<lparr>resp_status = 200, resp_text = Inr raw,
        resp_json = Inr data\<rparr> :: fault + response)) q = Inr r \<and> resp_ok r \<and> resp_json r = Inr data"
    for raw data
    by (simp add: resp_ok_def)
  have r1: "ready [''OPENAI_API_KEY'' \<mapsto> ''sk-1''] (JStr ''chatgpt'') (JStr ''Joseph'')"
    by (simp add: ready_def present_def)
  have r2: "ready [''GOOGLE_API_KEY'' \<mapsto> ''g-1''] (JStr ''gemini'') (JStr ''Joseph'')"
    by (simp add: ready_def present_def)
  have r3: "ready ?aenv (JStr ''copilot'') (JStr ''Joseph'')"
    by (simp add: ready_def present_def)
  have n1: "no_text (JStr ''chatgpt'') (JObj [(''choices'', JArr [])])"
    by (simp add: no_text_def)
  have n2: "no_text (JStr ''gemini'') (JObj [(''candidates'', JArr [])])"
    by (simp add: no_text_def)
  have n3: "no_text (JStr ''copilot'')
        (JObj [(''choices'', JArr [JObj [(''message'', JObj [(''content'', JNull)])]])])"
    by (simp add: no_text_def nullish_def)
  note a1 = answer_without_text_gives_empty_output[OF d0 t r1 f, THEN conjunct1, THEN mp, OF n1]
  note a2 = answer_without_text_gives_empty_output[OF d t r2 f, THEN conjunct1, THEN mp, OF n2]
  note a3 = answer_without_text_gives_empty_output[OF d t r3 f, THEN conjunct1, THEN mp, OF n3]
  note a4 = answer_without_text_gives_empty_output[OF d0 t r1 f, THEN conjunct2, THEN mp, OF refl]
  from n1 a1 n2 a2 n3 a3 a4 show ?thesis by (intro conjI)
qed

subsection \<open>A body that is no object\<close>

text \<open>
  Claim C10 says that a body that is absent or is no object is handled by putting the
  empty object in its place. \<^verbatim>\<open>req.body || {}\<close> does that for a falsy body only: an array
  is truthy and is destructured as it is.
\<close>

theorem array_body_is_not_replaced:
  "body_or_empty (JArr [JStr ''sermonCrafter'']) = JArr [JStr ''sermonCrafter'']
   \<and> body_or_empty (JArr [JStr ''sermonCrafter'']) \<noteq> JObj []"
  by (simp add: body_or_empty_def)

text \<open>
  Claim C10, amended: when the handler runs with a body that is absent (\<^verbatim>\<open>undefined\<close>) or
  falsy, it puts the empty object in its place before destructuring; a truthy body that is
  no object, such as an array, is destructured as it is and has none of the four
  properties. In both cases the reply is that for the empty object, the client error 400
  with the text \<^verbatim>\<open>task and input required\<close>, without a call of \<^verbatim>\<open>fetch\<close> and without an
  exception. A body that the JSON middleware refuses does not reach the handler and is
  outside this statement.
\<close>

theorem non_object_body_is_client_error:
  assumes "\<not> is_object body"
  shows "generate env fetch body = (Reply 400 (Failed (Text ''task and input required'')), [])
       \<and> generate env fetch body = generate env fetch (JObj [])
       \<and> (\<not> truthy body \<longrightarrow> body_or_empty body = JObj [])
       \<and> (truthy body \<longrightarrow> body_or_empty body = body)"
proof -
  have e: "\<not> is_object body \<Longrightarrow>
      generate env fetch body = (Reply 400 (Failed (Text ''task and input required'')), [])" for body
    by (simp add: generate_def generate_try_fields[OF destructure_non_object])
  have "generate env fetch (JObj []) = (Reply 400 (Failed (Text ''task and input required'')), [])"
    by (simp add: generate_def generate_try_def destructure_def body_or_empty_def Let_def
        andThen_simps default_to_def)
  with e[OF assms] show ?thesis by (simp add: body_or_empty_def)
qed

theorem non_object_body_is_client_error_witness:
  "\<not> is_object JUndefined
   \<and> generate Map.empty (\<lambda>q. Inl (Thrown ''offline'')) JUndefined
       = (Reply 400 (Failed (Text ''task and input required'')), [])
   \<and> body_or_empty JUndefined = JObj []
   \<and> \<not> is_object (JArr [JStr ''sermonCrafter''])
   \<and> generate Map.empty (\<lambda>q. Inl (Thrown ''offline'')) (JArr [JStr ''sermonCrafter''])
       = (Reply 400 (Failed (Text ''task and input required'')), [])
   \<and> body_or_empty (JArr [JStr ''sermonCrafter'']) = JArr [JStr ''sermonCrafter'']"
proof -
  have h1: "\<not> is_object JUndefined" by simp
  have h2: "\<not> is_object (JArr [JStr ''sermonCrafter''])" by simp
  from non_object_body_is_client_error[OF h1, of Map.empty "\<lambda>q. Inl (Thrown ''offline'')"]
    non_object_body_is_client_error[OF h2, of Map.empty "\<lambda>q. Inl (Thrown ''offline'')"]
  show ?thesis by simp
qed

end
